theory Spec2Isabelle
  imports Main "HOL-Library.Word" "HOL-Library.AList"
begin

unbundle bit_operations_syntax

section \<open>The swap registry of peerswap (swap/service.go)\<close>

text \<open>
  The theory embeds \<^verbatim>\<open>swap/service.go\<close>: the \<^verbatim>\<open>SwapService\<close> that owns the map of
  active swaps and routes peer messages, chain callbacks and payment callbacks to the
  swap state machines. The state machine itself, the message types with their
  validation and (de)serialisation, the wallets, the messenger and the store live in
  other files of the repository; what \<^verbatim>\<open>service.go\<close> calls of them is collected
  in the record \<open>externals\<close> below and every function of the service takes it as its
  first argument.
\<close>

subsection \<open>Identifiers, enumerations, errors\<close>

type_synonym bytes = "8 word list"

text \<open>
  Modelled from the spec: the type \<^verbatim>\<open>SwapId\<close> is declared outside \<^verbatim>\<open>service.go\<close>.
  The spec describes it as an opaque identifier "rendered as lowercase hex for wire/log
  use"; \<^verbatim>\<open>service.go\<close> only passes it on and calls \<^verbatim>\<open>String()\<close>, so the model keeps
  the rendering.
\<close>

datatype SwapId = MkSwapId (SwapId_String: string)

datatype SwapType = SWAPTYPE_IN | SWAPTYPE_OUT

datatype SwapRole = SWAPROLE_SENDER | SWAPROLE_RECEIVER

text \<open>
  The message types \<^verbatim>\<open>OnMessageReceived\<close> switches on; every other value of the
  integer type \<^verbatim>\<open>messages.MessageType\<close> is \<open>MESSAGETYPE_OTHER\<close>.
\<close>

datatype MessageType =
    MESSAGETYPE_SWAPINREQUEST
  | MESSAGETYPE_SWAPOUTREQUEST
  | MESSAGETYPE_SWAPINAGREEMENT
  | MESSAGETYPE_SWAPOUTAGREEMENT
  | MESSAGETYPE_OPENINGTXBROADCASTED
  | MESSAGETYPE_CANCELED
  | MESSAGETYPE_COOPCLOSE
  | MESSAGETYPE_OTHER nat

text \<open>The events \<^verbatim>\<open>service.go\<close> sends to a state machine.\<close>

datatype EventType =
    Event_OnSwapOutStarted
  | Event_SwapInSender_OnSwapInRequested
  | Event_SwapInReceiver_OnRequestReceived
  | Event_OnSwapOutRequestReceived
  | Event_SwapInSender_OnAgreementReceived
  | Event_OnFeeInvoiceReceived
  | Event_OnInvalid_Message
  | Event_OnFeeInvoicePaid
  | Event_OnClaimInvoicePaid
  | Event_OnTxOpenedMessage
  | Event_OnTxConfirmed
  | Event_OnCsvPassed
  | Event_OnCancelReceived
  | Event_OnCoopCloseReceived
  | Event_OnTimeout

text \<open>
  Go errors as values. \<open>ErrSwapDoesNotExist\<close> (declared in \<^verbatim>\<open>service.go\<close>) and
  \<open>ErrEventRejected\<close> (declared with the state machine) are the two sentinel values
  the service returns or compares against by identity; \<open>ErrorString\<close> is any error
  that is only its message (\<^verbatim>\<open>errors.New\<close>, \<^verbatim>\<open>fmt.Errorf\<close>, and whatever a collaborator
  returns), so two such errors with one message are one value here, which matters to
  no comparison the service makes. \<open>PanicNilDereference\<close> stands for the run-time panic
  of a field access through a nil pointer. \<open>Error\<close> is the method \<^verbatim>\<open>Error()\<close>.
\<close>

datatype error =
    ErrSwapDoesNotExist
  | ErrEventRejected
  | ErrorString string
  | PanicNilDereference

fun Error :: "error \<Rightarrow> string" where
  "Error ErrSwapDoesNotExist = ''swap does not exist''"
| "Error ErrEventRejected = ''event rejected''"
| "Error (ErrorString m) = m"
| "Error PanicNilDereference = ''runtime error: invalid memory address or nil pointer dereference''"

definition PEERSWAP_PROTOCOL_VERSION :: nat where
  "PEERSWAP_PROTOCOL_VERSION = 2"

text \<open>
  Modelled from the spec: the chain names \<^verbatim>\<open>btc_chain\<close> and \<^verbatim>\<open>l_btc_chain\<close> are
  declared outside \<^verbatim>\<open>service.go\<close>; the spec calls \<^verbatim>\<open>SwapOut\<close> with
  \<^verbatim>\<open>chain="btc"\<close>, and \<^verbatim>\<open>AllowedAssets\<close> of \<^verbatim>\<open>service.go\<close> lists the two names.
\<close>

definition btc_chain :: string where
  "btc_chain = ''btc''"

definition l_btc_chain :: string where
  "l_btc_chain = ''l-btc''"

definition ErrReceivedMessageFromUnexpectedPeer :: "string \<Rightarrow> SwapId \<Rightarrow> error" where
  "ErrReceivedMessageFromUnexpectedPeer peerId swapId =
     ErrorString (''received a message from an unexpected peer, peerId: '' @ peerId
                  @ '', swapId: '' @ SwapId_String swapId)"

subsection \<open>Wire messages\<close>

text \<open>
  Modelled from the spec: the message structs are declared outside \<^verbatim>\<open>service.go\<close>;
  their fields are those of the spec's wire-protocol table. A field is prefixed with
  the initials of its message, since the same field name occurs in several messages.
\<close>

record SwapOutRequestMessage =
  sor_ProtocolVersion :: nat
  sor_SwapId :: SwapId
  sor_Asset :: string
  sor_Network :: string
  sor_Scid :: string
  sor_Amount :: "64 word"
  sor_Pubkey :: string

record SwapInRequestMessage =
  sir_ProtocolVersion :: nat
  sir_SwapId :: SwapId
  sir_Asset :: string
  sir_Network :: string
  sir_Scid :: string
  sir_Amount :: "64 word"
  sir_Pubkey :: string

record SwapOutAgreementMessage =
  soa_ProtocolVersion :: nat
  soa_SwapId :: SwapId
  soa_Pubkey :: string
  soa_Payreq :: string

record SwapInAgreementMessage =
  sia_ProtocolVersion :: nat
  sia_SwapId :: SwapId
  sia_Pubkey :: string
  sia_Premium :: "64 word"

record OpeningTxBroadcastedMessage =
  otb_SwapId :: SwapId
  otb_Payreq :: string
  otb_TxId :: string
  otb_ScriptOut :: nat
  otb_BlindingKey :: string

record CoopCloseMessage =
  ccm_SwapId :: SwapId
  ccm_Message :: string
  ccm_Privkey :: string

record CancelMessage =
  cm_SwapId :: SwapId
  cm_Message :: string

text \<open>The argument of \<^verbatim>\<open>MarshalPeerswapMessage\<close>: any of the message structs.\<close>

datatype PeerMessage =
    Msg_SwapOutRequest SwapOutRequestMessage
  | Msg_SwapInRequest SwapInRequestMessage
  | Msg_SwapOutAgreement SwapOutAgreementMessage
  | Msg_SwapInAgreement SwapInAgreementMessage
  | Msg_OpeningTxBroadcasted OpeningTxBroadcastedMessage
  | Msg_CoopClose CoopCloseMessage
  | Msg_Cancel CancelMessage

subsection \<open>SwapData and the state machine\<close>

text \<open>
  Modelled from the spec: \<^verbatim>\<open>SwapData\<close> is declared outside \<^verbatim>\<open>service.go\<close>. The record
  has the fields \<^verbatim>\<open>service.go\<close> reads or writes under their names there (the stage
  envelopes are pointers: \<open>None\<close> is nil), and of the spec's data model the identity
  (\<open>sd_Id\<close>, \<open>sd_Type\<close>, \<open>sd_Role\<close>, \<open>InitiatorNodeId\<close>), the ephemeral key
  \<open>sd_Privkey\<close> and the current state \<open>sd_CurrentState\<close>.
\<close>

record SwapData =
  sd_Id :: SwapId
  sd_Type :: SwapType
  sd_Role :: SwapRole
  InitiatorNodeId :: string
  PeerNodeId :: string
  sd_Privkey :: bytes
  SwapInRequest :: "SwapInRequestMessage option"
  SwapInAgreement :: "SwapInAgreementMessage option"
  SwapOutRequest :: "SwapOutRequestMessage option"
  SwapOutAgreement :: "SwapOutAgreementMessage option"
  OpeningTxBroadcasted :: "OpeningTxBroadcastedMessage option"
  CoopClose :: "CoopCloseMessage option"
  Cancel :: "CancelMessage option"
  OpeningTxHex :: string
  CancelMessage :: string
  NextMessage :: bytes
  NextMessageType :: MessageType
  LastErr :: "error option"
  sd_CurrentState :: string

text \<open>
  A \<^verbatim>\<open>SwapStateMachine\<close>, as far as \<^verbatim>\<open>service.go\<close> reads it: \<^verbatim>\<open>swap.Id\<close> (here
  \<open>Id_str\<close>), \<^verbatim>\<open>swap.SwapId\<close>, \<^verbatim>\<open>swap.Type\<close>, \<^verbatim>\<open>swap.Role\<close> and \<^verbatim>\<open>swap.Data\<close>.
\<close>

record SwapStateMachine =
  Id_str :: string
  SwapId :: SwapId
  Type :: SwapType
  Role :: SwapRole
  Data :: SwapData

subsection \<open>What the service calls outside \<^verbatim>\<open>service.go\<close>\<close>

text \<open>
  The behaviour of everything \<^verbatim>\<open>service.go\<close> calls and does not define, one field
  per callee:
  \<^item> \<open>fsm_SendEvent event swap\<close> is \<^verbatim>\<open>swap.SendEvent(event, nil)\<close>: the machine after
    the call, the flag \<^verbatim>\<open>done\<close> and the error; \<open>fsm_Recover\<close> is \<^verbatim>\<open>swap.Recover()\<close>
    likewise and \<open>fsm_IsFinished\<close> is \<^verbatim>\<open>swap.IsFinished()\<close>;
  \<^item> \<open>swapStore_ListAll\<close> is \<^verbatim>\<open>swapStore.ListAll()\<close> and the four \<open>...FromStore\<close>
    functions rebuild a stored machine;
  \<^item> \<open>HexStringToMessageType\<close>, the seven \<open>Unmarshal_...\<close> fields (\<^verbatim>\<open>json.Unmarshal\<close>
    into a nil pointer of the message type: \<open>Inr None\<close> is the nil pointer that the
    JSON value \<^verbatim>\<open>null\<close> leaves) and \<open>MarshalPeerswapMessage\<close>;
  \<^item> the \<open>Validate_...\<close> fields are the \<^verbatim>\<open>Validate\<close> methods of the messages
    (\<open>None\<close> is a nil error) and \<open>GetChain\<close> is \<^verbatim>\<open>swap.Data.GetChain()\<close>;
  \<^item> \<open>messenger_SendMessage\<close> is the error \<^verbatim>\<open>messenger.SendMessage\<close> returns,
    \<open>liquidWallet_GetAsset\<close> and \<open>bitcoinWallet_GetNetwork\<close> are the wallets' answers;
  \<^item> \<open>ParseSwapIdFromString\<close>; and \<open>PubKey_SerializeCompressed\<close>, the bytes
    \<^verbatim>\<open>GetPrivkey().PubKey().SerializeCompressed()\<close> derives from the private key.
\<close>

record externals =
  fsm_SendEvent :: "EventType \<Rightarrow> SwapStateMachine \<Rightarrow> SwapStateMachine \<times> bool \<times> error option"
  fsm_Recover :: "SwapStateMachine \<Rightarrow> SwapStateMachine \<times> bool \<times> error option"
  fsm_IsFinished :: "SwapStateMachine \<Rightarrow> bool"
  swapStore_ListAll :: "error + SwapStateMachine list"
  swapInSenderFromStore :: "SwapStateMachine \<Rightarrow> SwapStateMachine"
  swapInReceiverFromStore :: "SwapStateMachine \<Rightarrow> SwapStateMachine"
  swapOutSenderFromStore :: "SwapStateMachine \<Rightarrow> SwapStateMachine"
  swapOutReceiverFromStore :: "SwapStateMachine \<Rightarrow> SwapStateMachine"
  HexStringToMessageType :: "string \<Rightarrow> error + MessageType"
  Unmarshal_SwapOutRequest :: "bytes \<Rightarrow> error + SwapOutRequestMessage option"
  Unmarshal_SwapOutAgreement :: "bytes \<Rightarrow> error + SwapOutAgreementMessage option"
  Unmarshal_OpeningTxBroadcasted :: "bytes \<Rightarrow> error + OpeningTxBroadcastedMessage option"
  Unmarshal_Cancel :: "bytes \<Rightarrow> error + CancelMessage option"
  Unmarshal_SwapInRequest :: "bytes \<Rightarrow> error + SwapInRequestMessage option"
  Unmarshal_SwapInAgreement :: "bytes \<Rightarrow> error + SwapInAgreementMessage option"
  Unmarshal_CoopClose :: "bytes \<Rightarrow> error + CoopCloseMessage option"
  MarshalPeerswapMessage :: "PeerMessage \<Rightarrow> error + bytes \<times> MessageType"
  Validate_SwapOutRequest :: "SwapOutRequestMessage \<Rightarrow> error option"
  Validate_SwapInRequest :: "SwapInRequestMessage \<Rightarrow> error option"
  Validate_SwapOutAgreement :: "SwapOutAgreementMessage \<Rightarrow> error option"
  Validate_SwapInAgreement :: "SwapInAgreementMessage \<Rightarrow> error option"
  Validate_OpeningTxBroadcasted :: "OpeningTxBroadcastedMessage \<Rightarrow> string \<Rightarrow> error option"
  Validate_CoopClose :: "CoopCloseMessage \<Rightarrow> error option"
  GetChain :: "SwapData \<Rightarrow> string"
  messenger_SendMessage :: "string \<Rightarrow> bytes \<Rightarrow> MessageType \<Rightarrow> error option"
  liquidWallet_GetAsset :: string
  bitcoinWallet_GetNetwork :: string
  ParseSwapIdFromString :: "string \<Rightarrow> error + SwapId"
  PubKey_SerializeCompressed :: "bytes \<Rightarrow> bytes"

text \<open>
  The values a call draws from the random source: the swap id a sender machine mints
  and the ephemeral private key of a new \<^verbatim>\<open>SwapData\<close>.
\<close>

record entropy =
  fresh_SwapId :: SwapId
  fresh_privkey :: bytes

subsection \<open>The service state\<close>

text \<open>
  \<^verbatim>\<open>activeSwaps\<close> is the Go map from the id string to the machine, kept as an
  association list (looked up with \<open>map_of\<close>, written with \<open>AList.update\<close>, deleted
  from with \<open>AList.delete\<close>). The map holds pointers and every pointer in it is to a
  machine of its own, so the model stores the machine under its key and writes a
  machine back under the key it was registered with whenever the code assigns through
  the pointer.

  Two histories record the effects that leave the service: \<open>sentEvents\<close> has one entry
  per call of \<^verbatim>\<open>SendEvent\<close> (the key of the machine, the event, and the \<^verbatim>\<open>SwapData\<close> the
  machine holds when the event is delivered), \<open>sentMessages\<close> one entry per call of
  \<^verbatim>\<open>messenger.SendMessage\<close> made by the service itself.
\<close>

record SwapService =
  activeSwaps :: "(string \<times> SwapStateMachine) list"
  BitcoinEnabled :: bool
  LiquidEnabled :: bool
  sentEvents :: "(string \<times> EventType \<times> SwapData) list"
  sentMessages :: "(string \<times> bytes \<times> MessageType) list"

definition AddActiveSwap :: "SwapService \<Rightarrow> string \<Rightarrow> SwapStateMachine \<Rightarrow> SwapService" where
  "AddActiveSwap s swapId swap = s\<lparr>activeSwaps := AList.update swapId swap (activeSwaps s)\<rparr>"

definition GetActiveSwap :: "SwapService \<Rightarrow> string \<Rightarrow> error + SwapStateMachine" where
  "GetActiveSwap s swapId =
     (case map_of (activeSwaps s) swapId of
        Some swap \<Rightarrow> Inr swap
      | None \<Rightarrow> Inl ErrSwapDoesNotExist)"

definition RemoveActiveSwap :: "SwapService \<Rightarrow> string \<Rightarrow> SwapService" where
  "RemoveActiveSwap s swapId = s\<lparr>activeSwaps := AList.delete swapId (activeSwaps s)\<rparr>"

text \<open>
  Modelled from the spec: \<^verbatim>\<open>GetScid\<close> is a method of \<^verbatim>\<open>SwapData\<close>, outside
  \<^verbatim>\<open>service.go\<close>. The spec's invariant speaks of the scid of a swap, and the only scid
  a \<^verbatim>\<open>SwapData\<close> holds is the one of its stored request.
\<close>

definition GetScid :: "SwapData \<Rightarrow> string" where
  "GetScid d =
     (case SwapInRequest d of
        Some r \<Rightarrow> sir_Scid r
      | None \<Rightarrow> (case SwapOutRequest d of Some r \<Rightarrow> sor_Scid r | None \<Rightarrow> []))"

definition onChannel :: "string \<Rightarrow> string \<times> SwapStateMachine \<Rightarrow> bool" where
  "onChannel channelId entry = (GetScid (Data (snd entry)) = channelId)"

definition hasActiveSwapOnChannel :: "SwapService \<Rightarrow> string \<Rightarrow> bool" where
  "hasActiveSwapOnChannel s channelId = list_ex (onChannel channelId) (activeSwaps s)"

definition isMessageSenderExpectedPeer :: "SwapService \<Rightarrow> string \<Rightarrow> SwapId \<Rightarrow> error + bool" where
  "isMessageSenderExpectedPeer s senderId swapId =
     (case GetActiveSwap s (SwapId_String swapId) of
        Inl err \<Rightarrow> Inl err
      | Inr swap \<Rightarrow> Inr (PeerNodeId (Data swap) = senderId))"

text \<open>
  \<open>writeSwap\<close> is an assignment through the pointer \<open>swap\<close> registered under \<open>key\<close>:
  the registry sees the assigned machine. \<open>SendEvent\<close> is \<^verbatim>\<open>swap.SendEvent(event, nil)\<close>
  on such a pointer: the call is recorded, and the machine the call leaves replaces the
  registered one.
\<close>

definition writeSwap :: "SwapService \<Rightarrow> string \<Rightarrow> SwapStateMachine \<Rightarrow> SwapService" where
  "writeSwap s key swap = s\<lparr>activeSwaps := AList.update key swap (activeSwaps s)\<rparr>"

definition SendEvent ::
  "externals \<Rightarrow> SwapService \<Rightarrow> string \<Rightarrow> SwapStateMachine \<Rightarrow> EventType
   \<Rightarrow> SwapService \<times> SwapStateMachine \<times> bool \<times> error option" where
  "SendEvent ext s key swap event =
     (case fsm_SendEvent ext event swap of
        (swap', don, err) \<Rightarrow>
          (s\<lparr>activeSwaps := AList.update key swap' (activeSwaps s),
              sentEvents := sentEvents s @ [(key, event, Data swap)]\<rparr>,
           swap', don, err))"

subsection \<open>Constructors of \<^verbatim>\<open>SwapData\<close> and of the four machines\<close>

text \<open>
  Modelled from the spec: \<^verbatim>\<open>NewSwapData\<close>, \<^verbatim>\<open>NewSwapDataFromRequest\<close>,
  \<^verbatim>\<open>WithSwapInMessage\<close> and \<^verbatim>\<open>WithSwapOutMessage\<close> are defined outside \<^verbatim>\<open>service.go\<close>.
  By the spec's data model a \<^verbatim>\<open>SwapData\<close> records its id, type, role, initiator and
  peer ("\<^verbatim>\<open>peerNodeId\<close> is fixed at machine creation") and holds a per-swap ephemeral
  private key; the sender is the peer that initiates the request, so the data built
  from a received request has the role of the receiver and the requesting peer as
  initiator. The constructors store the arguments \<^verbatim>\<open>service.go\<close> passes; the first
  argument is the private key drawn for the swap.
\<close>

definition NewSwapData :: "bytes \<Rightarrow> SwapId \<Rightarrow> SwapType \<Rightarrow> string \<Rightarrow> string \<Rightarrow> SwapData" where
  "NewSwapData key swapId swapType initiatorNodeId peerNodeId =
     \<lparr>sd_Id = swapId, sd_Type = swapType, sd_Role = SWAPROLE_SENDER,
      InitiatorNodeId = initiatorNodeId, PeerNodeId = peerNodeId, sd_Privkey = key,
      SwapInRequest = None, SwapInAgreement = None, SwapOutRequest = None,
      SwapOutAgreement = None, OpeningTxBroadcasted = None, CoopClose = None, Cancel = None,
      OpeningTxHex = [], CancelMessage = [], NextMessage = [],
      NextMessageType = MESSAGETYPE_OTHER 0, LastErr = None, sd_CurrentState = []\<rparr>"

definition NewSwapDataFromRequest :: "bytes \<Rightarrow> SwapId \<Rightarrow> string \<Rightarrow> SwapType \<Rightarrow> SwapData" where
  "NewSwapDataFromRequest key swapId senderNodeId swapType =
     \<lparr>sd_Id = swapId, sd_Type = swapType, sd_Role = SWAPROLE_RECEIVER,
      InitiatorNodeId = senderNodeId, PeerNodeId = senderNodeId, sd_Privkey = key,
      SwapInRequest = None, SwapInAgreement = None, SwapOutRequest = None,
      SwapOutAgreement = None, OpeningTxBroadcasted = None, CoopClose = None, Cancel = None,
      OpeningTxHex = [], CancelMessage = [], NextMessage = [],
      NextMessageType = MESSAGETYPE_OTHER 0, LastErr = None, sd_CurrentState = []\<rparr>"

definition WithSwapInMessage :: "SwapData \<Rightarrow> SwapInRequestMessage \<Rightarrow> SwapData" where
  "WithSwapInMessage d message = d\<lparr>SwapInRequest := Some message\<rparr>"

definition WithSwapOutMessage :: "SwapData \<Rightarrow> SwapOutRequestMessage \<Rightarrow> SwapData" where
  "WithSwapOutMessage d message = d\<lparr>SwapOutRequest := Some message\<rparr>"

text \<open>
  Modelled from the spec: the four machine constructors are defined outside
  \<^verbatim>\<open>service.go\<close>. A sender machine is allocated with a freshly minted swap id (the
  argument, drawn by the caller's \<open>entropy\<close>), a receiver machine with the id of the
  request; \<^verbatim>\<open>swap.Id\<close> is the rendering of \<^verbatim>\<open>swap.SwapId\<close>. The \<^verbatim>\<open>Data\<close> pointer of a new
  machine is nil until the caller assigns it, which every caller does before the
  machine is used: \<open>nilSwapData\<close> stands for the nil pointer and is never read.
\<close>

definition nilSwapData :: SwapData where
  "nilSwapData = NewSwapData [] (MkSwapId []) SWAPTYPE_IN [] []"

definition newSwapOutSenderFSM :: "SwapId \<Rightarrow> SwapStateMachine" where
  "newSwapOutSenderFSM swapId =
     \<lparr>Id_str = SwapId_String swapId, SwapId = swapId, Type = SWAPTYPE_OUT,
      Role = SWAPROLE_SENDER, Data = nilSwapData\<rparr>"

definition newSwapInSenderFSM :: "SwapId \<Rightarrow> SwapStateMachine" where
  "newSwapInSenderFSM swapId =
     \<lparr>Id_str = SwapId_String swapId, SwapId = swapId, Type = SWAPTYPE_IN,
      Role = SWAPROLE_SENDER, Data = nilSwapData\<rparr>"

definition newSwapOutReceiverFSM :: "SwapId \<Rightarrow> SwapStateMachine" where
  "newSwapOutReceiverFSM swapId =
     \<lparr>Id_str = SwapId_String swapId, SwapId = swapId, Type = SWAPTYPE_OUT,
      Role = SWAPROLE_RECEIVER, Data = nilSwapData\<rparr>"

definition newSwapInReceiverFSM :: "SwapId \<Rightarrow> SwapStateMachine" where
  "newSwapInReceiverFSM swapId =
     \<lparr>Id_str = SwapId_String swapId, SwapId = swapId, Type = SWAPTYPE_IN,
      Role = SWAPROLE_RECEIVER, Data = nilSwapData\<rparr>"

subsection \<open>Library functions of Go\<close>

text \<open>\<^verbatim>\<open>hex.EncodeToString\<close>: two lowercase hex digits per byte, high nibble first.\<close>

definition hextable :: string where
  "hextable = ''0123456789abcdef''"

fun hex_EncodeToString :: "bytes \<Rightarrow> string" where
  "hex_EncodeToString [] = []"
| "hex_EncodeToString (v # src) =
     hextable ! unat (drop_bit 4 v) # hextable ! unat (v AND 0x0f) # hex_EncodeToString src"

text \<open>
  \<^verbatim>\<open>strings.Index(s, substr)\<close>, with \<open>None\<close> for -1, and \<^verbatim>\<open>strings.SplitN(s, sep, 2)\<close>
  for a separator that is not empty: the string itself when it does not hold the
  separator, else what stands before its first occurrence and all that follows it.
\<close>

fun strings_Index :: "string \<Rightarrow> string \<Rightarrow> nat option" where
  "strings_Index [] substr = (if substr = [] then Some 0 else None)"
| "strings_Index (c # cs) substr =
     (if take (length substr) (c # cs) = substr then Some 0
      else map_option Suc (strings_Index cs substr))"

definition strings_SplitN_2 :: "string \<Rightarrow> string \<Rightarrow> string list" where
  "strings_SplitN_2 s sep =
     (case strings_Index s sep of
        None \<Rightarrow> [s]
      | Some m \<Rightarrow> [take m s, drop (m + length sep) s])"

subsection \<open>Callbacks of the chain watchers\<close>

text \<open>
  A function of the service returns the service after the call together with what the
  Go function returns; an \<^verbatim>\<open>error\<close> result is \<open>None\<close> for nil.
\<close>

definition OnTxConfirmed :: "externals \<Rightarrow> SwapService \<Rightarrow> string \<Rightarrow> string \<Rightarrow> SwapService \<times> error option" where
  "OnTxConfirmed ext s swapId txHex =
     (case GetActiveSwap s swapId of
        Inl err \<Rightarrow> (s, Some err)
      | Inr swap \<Rightarrow>
          (case SendEvent ext s swapId (swap\<lparr>Data := (Data swap)\<lparr>OpeningTxHex := txHex\<rparr>\<rparr>)
                  Event_OnTxConfirmed of
             (s1, swap1, done, err) \<Rightarrow>
               if err = Some ErrEventRejected then (s1, None)
               else if err \<noteq> None then (s1, err)
               else if done then (RemoveActiveSwap s1 (Id_str swap1), None)
               else (s1, None)))"

definition OnCsvPassed :: "externals \<Rightarrow> SwapService \<Rightarrow> string \<Rightarrow> SwapService \<times> error option" where
  "OnCsvPassed ext s swapId =
     (case GetActiveSwap s swapId of
        Inl err \<Rightarrow> (s, Some err)
      | Inr swap \<Rightarrow>
          (case SendEvent ext s swapId swap Event_OnCsvPassed of
             (s1, swap1, done, err) \<Rightarrow>
               if err = Some ErrEventRejected then (s1, None)
               else if err \<noteq> None then (s1, err)
               else if done then (RemoveActiveSwap s1 (Id_str swap1), None)
               else (s1, None)))"

subsection \<open>Starting a swap\<close>

definition SwapOut ::
  "externals \<Rightarrow> entropy \<Rightarrow> SwapService \<Rightarrow> string \<Rightarrow> string \<Rightarrow> string \<Rightarrow> string \<Rightarrow> 64 word
   \<Rightarrow> SwapService \<times> (error + SwapStateMachine)" where
  "SwapOut ext rnd s peer chain channelId initiator amount =
     (if hasActiveSwapOnChannel s channelId
      then (s, Inl (ErrorString ''already has an active swap on channel''))
      else
        let swap = newSwapOutSenderFSM (fresh_SwapId rnd);
            s1 = AddActiveSwap s (Id_str swap) swap;
            swap1 = swap\<lparr>Data := NewSwapData (fresh_privkey rnd) (SwapId swap) SWAPTYPE_OUT initiator peer\<rparr>;
            elementsAsset = (if chain = l_btc_chain then liquidWallet_GetAsset ext else []);
            bitcoinNetwork = (if chain = l_btc_chain then []
                              else if chain = btc_chain then bitcoinWallet_GetNetwork ext
                              else []);
            request = \<lparr>sor_ProtocolVersion = PEERSWAP_PROTOCOL_VERSION,
                       sor_SwapId = SwapId swap1,
                       sor_Asset = elementsAsset,
                       sor_Network = bitcoinNetwork,
                       sor_Scid = channelId,
                       sor_Amount = amount,
                       sor_Pubkey = hex_EncodeToString
                                      (PubKey_SerializeCompressed ext (sd_Privkey (Data swap1)))\<rparr>;
            swap2 = swap1\<lparr>Data := (Data swap1)\<lparr>SwapOutRequest := Some request\<rparr>\<rparr>;
            s2 = writeSwap s1 (Id_str swap) swap2
        in case MarshalPeerswapMessage ext (Msg_SwapOutRequest request) of
             Inl err \<Rightarrow> (s2, Inl err)
           | Inr (nextMessage, nextMessageType) \<Rightarrow>
               (case SendEvent ext s2 (Id_str swap)
                       (swap2\<lparr>Data := (Data swap2)\<lparr>NextMessage := nextMessage,
                                                    NextMessageType := nextMessageType\<rparr>\<rparr>)
                       Event_OnSwapOutStarted of
                  (s3, swap3, done, err) \<Rightarrow>
                    (case err of
                       Some e \<Rightarrow> (s3, Inl e)
                     | None \<Rightarrow> (if done then RemoveActiveSwap s3 (Id_str swap3) else s3, Inr swap3))))"

definition SwapIn ::
  "externals \<Rightarrow> entropy \<Rightarrow> SwapService \<Rightarrow> string \<Rightarrow> string \<Rightarrow> string \<Rightarrow> string \<Rightarrow> 64 word
   \<Rightarrow> SwapService \<times> (error + SwapStateMachine)" where
  "SwapIn ext rnd s peer chain channelId initiator amount =
     (if hasActiveSwapOnChannel s channelId
      then (s, Inl (ErrorString ''already has an active swap on channel''))
      else
        let elementsAsset = (if chain = l_btc_chain then liquidWallet_GetAsset ext else []);
            bitcoinNetwork = (if chain = l_btc_chain then []
                              else if chain = btc_chain then bitcoinWallet_GetNetwork ext
                              else []);
            swap = newSwapInSenderFSM (fresh_SwapId rnd);
            s1 = AddActiveSwap s (Id_str swap) swap;
            swap1 = swap\<lparr>Data := NewSwapData (fresh_privkey rnd) (SwapId swap) SWAPTYPE_IN initiator peer\<rparr>;
            request = \<lparr>sir_ProtocolVersion = PEERSWAP_PROTOCOL_VERSION,
                       sir_SwapId = SwapId swap1,
                       sir_Asset = elementsAsset,
                       sir_Network = bitcoinNetwork,
                       sir_Scid = channelId,
                       sir_Amount = amount,
                       sir_Pubkey = hex_EncodeToString
                                      (PubKey_SerializeCompressed ext (sd_Privkey (Data swap1)))\<rparr>;
            swap2 = swap1\<lparr>Data := (Data swap1)\<lparr>SwapInRequest := Some request\<rparr>\<rparr>;
            s2 = writeSwap s1 (Id_str swap) swap2
        in case MarshalPeerswapMessage ext (Msg_SwapInRequest request) of
             Inl err \<Rightarrow> (s2, Inl err)
           | Inr (nextMessage, nextMessageType) \<Rightarrow>
               (case SendEvent ext s2 (Id_str swap)
                       (swap2\<lparr>Data := (Data swap2)\<lparr>NextMessage := nextMessage,
                                                    NextMessageType := nextMessageType\<rparr>\<rparr>)
                       Event_SwapInSender_OnSwapInRequested of
                  (s3, swap3, done, err) \<Rightarrow>
                    (case err of
                       Some e \<Rightarrow> (s3, Inl e)
                     | None \<Rightarrow> (if done then RemoveActiveSwap s3 (Id_str swap3) else s3, Inr swap3))))"

subsection \<open>Handlers of the two request messages\<close>

text \<open>
  The private key of the new \<^verbatim>\<open>SwapData\<close> is the first argument after \<open>ext\<close>. After a
  failed validation the handler answers the peer with a \<^verbatim>\<open>CancelMessage\<close> and returns
  what the messenger returns.
\<close>

definition OnSwapInRequestReceived ::
  "externals \<Rightarrow> bytes \<Rightarrow> SwapService \<Rightarrow> SwapId \<Rightarrow> string \<Rightarrow> SwapInRequestMessage
   \<Rightarrow> SwapService \<times> error option" where
  "OnSwapInRequestReceived ext key s swapId peerId message =
     (if hasActiveSwapOnChannel s (sir_Scid message)
      then (s, Some (ErrorString ''already has an active swap on channel''))
      else
        case Validate_SwapInRequest ext message of
          Some err \<Rightarrow>
            (case MarshalPeerswapMessage ext
                    (Msg_Cancel \<lparr>cm_SwapId = swapId, cm_Message = ''invalid request '' @ Error err\<rparr>) of
               Inl err1 \<Rightarrow> (s, Some err1)
             | Inr (msgBytes, msgType) \<Rightarrow>
                 (s\<lparr>sentMessages := sentMessages s @ [(peerId, msgBytes, msgType)]\<rparr>,
                  messenger_SendMessage ext peerId msgBytes msgType))
        | None \<Rightarrow>
            let swap = newSwapInReceiverFSM swapId;
                s1 = AddActiveSwap s (SwapId_String swapId) swap;
                swap1 = swap\<lparr>Data := WithSwapInMessage
                                        (NewSwapDataFromRequest key (SwapId swap) peerId SWAPTYPE_OUT)
                                        message\<rparr>;
                s2 = writeSwap s1 (SwapId_String swapId) swap1
            in case SendEvent ext s2 (SwapId_String swapId) swap1
                      Event_SwapInReceiver_OnRequestReceived of
                 (s3, swap2, done, err) \<Rightarrow>
                   (if done then RemoveActiveSwap s3 (Id_str swap2) else s3, err))"

definition OnSwapOutRequestReceived ::
  "externals \<Rightarrow> bytes \<Rightarrow> SwapService \<Rightarrow> SwapId \<Rightarrow> string \<Rightarrow> SwapOutRequestMessage
   \<Rightarrow> SwapService \<times> error option" where
  "OnSwapOutRequestReceived ext key s swapId peerId message =
     (if hasActiveSwapOnChannel s (sor_Scid message)
      then (s, Some (ErrorString ''already has an active swap on channel''))
      else
        case Validate_SwapOutRequest ext message of
          Some err \<Rightarrow>
            (case MarshalPeerswapMessage ext
                    (Msg_Cancel \<lparr>cm_SwapId = swapId, cm_Message = ''invalid request '' @ Error err\<rparr>) of
               Inl err1 \<Rightarrow> (s, Some err1)
             | Inr (msgBytes, msgType) \<Rightarrow>
                 (s\<lparr>sentMessages := sentMessages s @ [(peerId, msgBytes, msgType)]\<rparr>,
                  messenger_SendMessage ext peerId msgBytes msgType))
        | None \<Rightarrow>
            let swap = newSwapOutReceiverFSM swapId;
                swap1 = swap\<lparr>Data := WithSwapOutMessage
                                        (NewSwapDataFromRequest key (SwapId swap) peerId SWAPTYPE_OUT)
                                        message\<rparr>;
                s1 = AddActiveSwap s (SwapId_String swapId) swap1
            in case SendEvent ext s1 (SwapId_String swapId) swap1 Event_OnSwapOutRequestReceived of
                 (s2, swap2, done, err) \<Rightarrow>
                   (case err of
                      Some e \<Rightarrow> (s2, Some e)
                    | None \<Rightarrow> (if done then RemoveActiveSwap s2 (Id_str swap2) else s2, None)))"

subsection \<open>Handlers of the stage messages\<close>

text \<open>
  A handler that has looked a machine up holds the pointer to it; in the model the
  pointer is the key of the lookup together with the machine, so \<open>HandleInvalidMessage\<close>
  takes the key beside the machine.
\<close>

definition HandleInvalidMessage ::
  "externals \<Rightarrow> SwapService \<Rightarrow> string \<Rightarrow> SwapStateMachine \<Rightarrow> error \<Rightarrow> SwapService \<times> error option" where
  "HandleInvalidMessage ext s key swapFsm err =
     (case SendEvent ext s key
             (swapFsm\<lparr>Data := (Data swapFsm)\<lparr>CancelMessage := ''invalid request '' @ Error err\<rparr>\<rparr>)
             Event_OnInvalid_Message of
        (s1, swap1, done, err1) \<Rightarrow>
          (case err1 of
             Some e \<Rightarrow> (s1, Some e)
           | None \<Rightarrow> (if done then RemoveActiveSwap s1 (Id_str swap1) else s1, None)))"

definition OnSwapInAgreementReceived ::
  "externals \<Rightarrow> SwapService \<Rightarrow> SwapInAgreementMessage \<Rightarrow> SwapService \<times> error option" where
  "OnSwapInAgreementReceived ext s msg =
     (case GetActiveSwap s (SwapId_String (sia_SwapId msg)) of
        Inl err \<Rightarrow> (s, Some err)
      | Inr swap \<Rightarrow>
          (case Validate_SwapInAgreement ext msg of
             Some err \<Rightarrow>
               (case SendEvent ext s (SwapId_String (sia_SwapId msg))
                       (swap\<lparr>Data := (Data swap)\<lparr>CancelMessage := ''invalid request '' @ Error err\<rparr>\<rparr>)
                       Event_OnInvalid_Message of
                  (s1, swap1, done, err1) \<Rightarrow>
                    (case err1 of
                       Some e \<Rightarrow> (s1, Some e)
                     | None \<Rightarrow> (if done then RemoveActiveSwap s1 (Id_str swap1) else s1, None)))
           | None \<Rightarrow>
               (case SendEvent ext s (SwapId_String (sia_SwapId msg))
                       (swap\<lparr>Data := (Data swap)\<lparr>SwapInAgreement := Some msg\<rparr>\<rparr>)
                       Event_SwapInSender_OnAgreementReceived of
                  (s1, swap1, done, err1) \<Rightarrow>
                    (case err1 of
                       Some e \<Rightarrow> (s1, Some e)
                     | None \<Rightarrow> (if done then RemoveActiveSwap s1 (Id_str swap1) else s1, None)))))"

definition OnSwapOutAgreementReceived ::
  "externals \<Rightarrow> SwapService \<Rightarrow> SwapOutAgreementMessage \<Rightarrow> SwapService \<times> error option" where
  "OnSwapOutAgreementReceived ext s message =
     (case GetActiveSwap s (SwapId_String (soa_SwapId message)) of
        Inl err \<Rightarrow> (s, Some err)
      | Inr swap \<Rightarrow>
          (case Validate_SwapOutAgreement ext message of
             Some err \<Rightarrow> HandleInvalidMessage ext s (SwapId_String (soa_SwapId message)) swap err
           | None \<Rightarrow>
               (case SendEvent ext s (SwapId_String (soa_SwapId message))
                       (swap\<lparr>Data := (Data swap)\<lparr>SwapOutAgreement := Some message\<rparr>\<rparr>)
                       Event_OnFeeInvoiceReceived of
                  (s1, swap1, done, err1) \<Rightarrow>
                    (case err1 of
                       Some e \<Rightarrow> (s1, Some e)
                     | None \<Rightarrow> (if done then RemoveActiveSwap s1 (Id_str swap1) else s1, None)))))"

definition OnTxOpenedMessage ::
  "externals \<Rightarrow> SwapService \<Rightarrow> OpeningTxBroadcastedMessage \<Rightarrow> SwapService \<times> error option" where
  "OnTxOpenedMessage ext s message =
     (case GetActiveSwap s (SwapId_String (otb_SwapId message)) of
        Inl err \<Rightarrow> (s, Some err)
      | Inr swap \<Rightarrow>
          (case Validate_OpeningTxBroadcasted ext message (GetChain ext (Data swap)) of
             Some err \<Rightarrow> HandleInvalidMessage ext s (SwapId_String (otb_SwapId message)) swap err
           | None \<Rightarrow>
               (case SendEvent ext s (SwapId_String (otb_SwapId message))
                       (swap\<lparr>Data := (Data swap)\<lparr>OpeningTxBroadcasted := Some message\<rparr>\<rparr>)
                       Event_OnTxOpenedMessage of
                  (s1, swap1, done, err1) \<Rightarrow>
                    (case err1 of
                       Some e \<Rightarrow> (s1, Some e)
                     | None \<Rightarrow> (if done then RemoveActiveSwap s1 (Id_str swap1) else s1, None)))))"

definition OnCancelReceived ::
  "externals \<Rightarrow> SwapService \<Rightarrow> SwapId \<Rightarrow> CancelMessage \<Rightarrow> SwapService \<times> error option" where
  "OnCancelReceived ext s swapId cancelMsg =
     (case GetActiveSwap s (SwapId_String swapId) of
        Inl err \<Rightarrow> (s, Some err)
      | Inr swap \<Rightarrow>
          (case SendEvent ext s (SwapId_String swapId)
                  (swap\<lparr>Data := (Data swap)\<lparr>Cancel := Some cancelMsg\<rparr>\<rparr>)
                  Event_OnCancelReceived of
             (s1, swap1, done, err1) \<Rightarrow>
               (case err1 of
                  Some e \<Rightarrow> (s1, Some e)
                | None \<Rightarrow> (if done then RemoveActiveSwap s1 (Id_str swap1) else s1, None))))"

definition OnCoopCloseReceived ::
  "externals \<Rightarrow> SwapService \<Rightarrow> SwapId \<Rightarrow> CoopCloseMessage \<Rightarrow> SwapService \<times> error option" where
  "OnCoopCloseReceived ext s swapId coopCloseMessage =
     (case GetActiveSwap s (SwapId_String swapId) of
        Inl err \<Rightarrow> (s, Some err)
      | Inr swap \<Rightarrow>
          (case Validate_CoopClose ext coopCloseMessage of
             Some err \<Rightarrow> HandleInvalidMessage ext s (SwapId_String swapId) swap err
           | None \<Rightarrow>
               (case SendEvent ext s (SwapId_String swapId)
                       (swap\<lparr>Data := (Data swap)\<lparr>CoopClose := Some coopCloseMessage\<rparr>\<rparr>)
                       Event_OnCoopCloseReceived of
                  (s1, swap1, done, err1) \<Rightarrow>
                    (case err1 of
                       Some e \<Rightarrow> (s1, Some e)
                     | None \<Rightarrow> (if done then RemoveActiveSwap s1 (Id_str swap1) else s1, None)))))"

subsection \<open>Payment callbacks\<close>

definition OnFeeInvoicePaid :: "externals \<Rightarrow> SwapService \<Rightarrow> SwapId \<Rightarrow> SwapService \<times> error option" where
  "OnFeeInvoicePaid ext s swapId =
     (case GetActiveSwap s (SwapId_String swapId) of
        Inl err \<Rightarrow> (s, Some err)
      | Inr swap \<Rightarrow>
          (case SendEvent ext s (SwapId_String swapId) swap Event_OnFeeInvoicePaid of
             (s1, swap1, done, err1) \<Rightarrow>
               (case err1 of
                  Some e \<Rightarrow> (s1, Some e)
                | None \<Rightarrow> (if done then RemoveActiveSwap s1 (Id_str swap1) else s1, None))))"

definition OnClaimInvoicePaid :: "externals \<Rightarrow> SwapService \<Rightarrow> SwapId \<Rightarrow> SwapService \<times> error option" where
  "OnClaimInvoicePaid ext s swapId =
     (case GetActiveSwap s (SwapId_String swapId) of
        Inl err \<Rightarrow> (s, Some err)
      | Inr swap \<Rightarrow>
          (case SendEvent ext s (SwapId_String swapId) swap Event_OnClaimInvoicePaid of
             (s1, swap1, done, err1) \<Rightarrow>
               (case err1 of
                  Some e \<Rightarrow> (s1, Some e)
                | None \<Rightarrow> (if done then RemoveActiveSwap s1 (Id_str swap1) else s1, None))))"

definition PaymentLabelSeparator :: string where
  "PaymentLabelSeparator = ''_''"

definition getPaymentLabel :: "string \<Rightarrow> string" where
  "getPaymentLabel description =
     (let parts = strings_SplitN_2 description PaymentLabelSeparator
      in if length parts \<noteq> 2 then [] else parts ! 0)"

text \<open>
  \<^verbatim>\<open>OnPayment\<close> returns nothing: an error of the parser or of the handler is logged and
  the call returns. The slices \<^verbatim>\<open>description[4:]\<close> and \<^verbatim>\<open>description[6:]\<close> are in range
  where they are taken, since the label and the separator stand before them.
\<close>

definition OnPayment :: "externals \<Rightarrow> SwapService \<Rightarrow> string \<Rightarrow> SwapService" where
  "OnPayment ext s description =
     (let label = getPaymentLabel description
      in if label = ''fee'' then
           (case ParseSwapIdFromString ext (drop 4 description) of
              Inl err \<Rightarrow> s
            | Inr swapId \<Rightarrow> fst (OnFeeInvoicePaid ext s swapId))
         else if label = ''claim'' then
           (case ParseSwapIdFromString ext (drop 6 description) of
              Inl err \<Rightarrow> s
            | Inr swapId \<Rightarrow> fst (OnClaimInvoicePaid ext s swapId))
         else s)"

subsection \<open>The dispatcher of peer messages\<close>

text \<open>
  \<open>key\<close> is the private key drawn when a request message creates a swap. A decoder
  that leaves the message pointer nil makes the read of \<^verbatim>\<open>msg.SwapId\<close> panic.
\<close>

definition OnMessageReceived ::
  "externals \<Rightarrow> bytes \<Rightarrow> SwapService \<Rightarrow> string \<Rightarrow> string \<Rightarrow> bytes \<Rightarrow> SwapService \<times> error option" where
  "OnMessageReceived ext key s peerId msgTypeString payload =
     (if length payload > 100 * 1024
      then (s, Some (ErrorString ''Payload is unexpectedly large''))
      else
        case HexStringToMessageType ext msgTypeString of
          Inl err \<Rightarrow> (s, Some err)
        | Inr msgType \<Rightarrow>
            (case msgType of
               MESSAGETYPE_SWAPOUTREQUEST \<Rightarrow>
                 (case Unmarshal_SwapOutRequest ext payload of
                    Inl err \<Rightarrow> (s, Some err)
                  | Inr None \<Rightarrow> (s, Some PanicNilDereference)
                  | Inr (Some msg) \<Rightarrow> OnSwapOutRequestReceived ext key s (sor_SwapId msg) peerId msg)
             | MESSAGETYPE_SWAPOUTAGREEMENT \<Rightarrow>
                 (case Unmarshal_SwapOutAgreement ext payload of
                    Inl err \<Rightarrow> (s, Some err)
                  | Inr None \<Rightarrow> (s, Some PanicNilDereference)
                  | Inr (Some msg) \<Rightarrow>
                      (case isMessageSenderExpectedPeer s peerId (soa_SwapId msg) of
                         Inl err \<Rightarrow> (s, Some err)
                       | Inr ok \<Rightarrow>
                           if \<not> ok
                           then (s, Some (ErrReceivedMessageFromUnexpectedPeer peerId (soa_SwapId msg)))
                           else OnSwapOutAgreementReceived ext s msg))
             | MESSAGETYPE_OPENINGTXBROADCASTED \<Rightarrow>
                 (case Unmarshal_OpeningTxBroadcasted ext payload of
                    Inl err \<Rightarrow> (s, Some err)
                  | Inr None \<Rightarrow> (s, Some PanicNilDereference)
                  | Inr (Some msg) \<Rightarrow>
                      (case isMessageSenderExpectedPeer s peerId (otb_SwapId msg) of
                         Inl err \<Rightarrow> (s, Some err)
                       | Inr ok \<Rightarrow>
                           if \<not> ok
                           then (s, Some (ErrReceivedMessageFromUnexpectedPeer peerId (otb_SwapId msg)))
                           else OnTxOpenedMessage ext s msg))
             | MESSAGETYPE_CANCELED \<Rightarrow>
                 (case Unmarshal_Cancel ext payload of
                    Inl err \<Rightarrow> (s, Some err)
                  | Inr None \<Rightarrow> (s, Some PanicNilDereference)
                  | Inr (Some msg) \<Rightarrow>
                      (case isMessageSenderExpectedPeer s peerId (cm_SwapId msg) of
                         Inl err \<Rightarrow> (s, Some err)
                       | Inr ok \<Rightarrow>
                           if \<not> ok
                           then (s, Some (ErrReceivedMessageFromUnexpectedPeer peerId (cm_SwapId msg)))
                           else OnCancelReceived ext s (cm_SwapId msg) msg))
             | MESSAGETYPE_SWAPINREQUEST \<Rightarrow>
                 (case Unmarshal_SwapInRequest ext payload of
                    Inl err \<Rightarrow> (s, Some err)
                  | Inr None \<Rightarrow> (s, Some PanicNilDereference)
                  | Inr (Some msg) \<Rightarrow> OnSwapInRequestReceived ext key s (sir_SwapId msg) peerId msg)
             | MESSAGETYPE_SWAPINAGREEMENT \<Rightarrow>
                 (case Unmarshal_SwapInAgreement ext payload of
                    Inl err \<Rightarrow> (s, Some err)
                  | Inr None \<Rightarrow> (s, Some PanicNilDereference)
                  | Inr (Some msg) \<Rightarrow>
                      (case isMessageSenderExpectedPeer s peerId (sia_SwapId msg) of
                         Inl err \<Rightarrow> (s, Some err)
                       | Inr ok \<Rightarrow>
                           if \<not> ok
                           then (s, Some (ErrReceivedMessageFromUnexpectedPeer peerId (sia_SwapId msg)))
                           else OnSwapInAgreementReceived ext s msg))
             | MESSAGETYPE_COOPCLOSE \<Rightarrow>
                 (case Unmarshal_CoopClose ext payload of
                    Inl err \<Rightarrow> (s, Some err)
                  | Inr None \<Rightarrow> (s, Some PanicNilDereference)
                  | Inr (Some msg) \<Rightarrow>
                      (case isMessageSenderExpectedPeer s peerId (ccm_SwapId msg) of
                         Inl err \<Rightarrow> (s, Some err)
                       | Inr ok \<Rightarrow>
                           if \<not> ok
                           then (s, Some (ErrReceivedMessageFromUnexpectedPeer peerId (ccm_SwapId msg)))
                           else OnCoopCloseReceived ext s (ccm_SwapId msg) msg))
             | MESSAGETYPE_OTHER n \<Rightarrow> (s, None)))"

subsection \<open>Recovery\<close>

text \<open>
  The loop of \<^verbatim>\<open>RecoverSwaps\<close> over the stored machines: a finished one is skipped,
  every other one is rebuilt for its stored type and role, registered under its id and
  recovered; an error of \<^verbatim>\<open>Recover\<close> ends the loop.
\<close>

fun RecoverSwaps_loop ::
  "externals \<Rightarrow> SwapService \<Rightarrow> SwapStateMachine list \<Rightarrow> SwapService \<times> error option" where
  "RecoverSwaps_loop ext s [] = (s, None)"
| "RecoverSwaps_loop ext s (swap # swaps) =
     (if fsm_IsFinished ext swap then RecoverSwaps_loop ext s swaps
      else
        let swap1 =
              (if Type swap = SWAPTYPE_IN \<and> Role swap = SWAPROLE_SENDER
                 then swapInSenderFromStore ext swap
               else if Type swap = SWAPTYPE_IN \<and> Role swap = SWAPROLE_RECEIVER
                 then swapInReceiverFromStore ext swap
               else if Type swap = SWAPTYPE_OUT \<and> Role swap = SWAPROLE_SENDER
                 then swapOutSenderFromStore ext swap
               else if Type swap = SWAPTYPE_OUT \<and> Role swap = SWAPROLE_RECEIVER
                 then swapOutReceiverFromStore ext swap
               else swap);
            s1 = AddActiveSwap s (Id_str swap1) swap1
        in case fsm_Recover ext swap1 of
             (swap2, done, err) \<Rightarrow>
               (case err of
                  Some e \<Rightarrow> (writeSwap s1 (Id_str swap1) swap2, Some e)
                | None \<Rightarrow>
                    RecoverSwaps_loop ext
                      (if done then RemoveActiveSwap (writeSwap s1 (Id_str swap1) swap2) (Id_str swap2)
                       else writeSwap s1 (Id_str swap1) swap2)
                      swaps))"

definition RecoverSwaps :: "externals \<Rightarrow> SwapService \<Rightarrow> SwapService \<times> error option" where
  "RecoverSwaps ext s =
     (case swapStore_ListAll ext of
        Inl err \<Rightarrow> (s, Some err)
      | Inr swaps \<Rightarrow> RecoverSwaps_loop ext s swaps)"

subsection \<open>The admission invariant\<close>

text \<open>
  The number of active swaps on a channel, and the invariant that no two active swaps
  are on the same channel: the scids of the registered machines are pairwise distinct.
\<close>

definition swapsOnChannel :: "SwapService \<Rightarrow> string \<Rightarrow> nat" where
  "swapsOnChannel s channelId = length (filter (onChannel channelId) (activeSwaps s))"

definition scidOf :: "string \<times> SwapStateMachine \<Rightarrow> string" where
  "scidOf entry = GetScid (Data (snd entry))"

definition oneSwapPerChannel :: "SwapService \<Rightarrow> bool" where
  "oneSwapPerChannel s = distinct (map scidOf (activeSwaps s))"

text \<open>
  What the invariant needs of the state machine: handling an event leaves the scid of
  the swap's request as it is.
\<close>

definition SendEvent_keeps_scid :: "externals \<Rightarrow> bool" where
  "SendEvent_keeps_scid ext =
     (\<forall>event swap. GetScid (Data (fst (fsm_SendEvent ext event swap))) = GetScid (Data swap))"

subsection \<open>A new service, and collaborators for the examples\<close>

text \<open>
  \<^verbatim>\<open>NewSwapService\<close>: no active swap; the two flags are those of the services. The
  histories start empty.
\<close>

definition NewSwapService :: "bool \<Rightarrow> bool \<Rightarrow> SwapService" where
  "NewSwapService liquidEnabled bitcoinEnabled =
     \<lparr>activeSwaps = [], BitcoinEnabled = bitcoinEnabled, LiquidEnabled = liquidEnabled,
      sentEvents = [], sentMessages = []\<rparr>"

text \<open>
  Collaborators for the concrete examples below: a state machine that accepts every
  event and leaves the machine as it is, decoders that read the message off the first
  byte of the payload, validation that accepts, a messenger that delivers, and wallets
  on Bitcoin mainnet and on a Liquid asset.
\<close>

definition example_tag :: "string \<Rightarrow> error + MessageType" where
  "example_tag h =
     (if h = ''a455'' then Inr MESSAGETYPE_SWAPINREQUEST
      else if h = ''a457'' then Inr MESSAGETYPE_SWAPOUTREQUEST
      else if h = ''a459'' then Inr MESSAGETYPE_SWAPINAGREEMENT
      else if h = ''a45b'' then Inr MESSAGETYPE_SWAPOUTAGREEMENT
      else if h = ''a45d'' then Inr MESSAGETYPE_OPENINGTXBROADCASTED
      else if h = ''a45f'' then Inr MESSAGETYPE_CANCELED
      else if h = ''a461'' then Inr MESSAGETYPE_COOPCLOSE
      else if h = ''a463'' then Inr (MESSAGETYPE_OTHER 42083)
      else Inl (ErrorString ''invalid message type''))"

definition example_id :: "bytes \<Rightarrow> SwapId" where
  "example_id payload = MkSwapId (hex_EncodeToString (take 1 payload))"

definition example_externals :: externals where
  "example_externals =
     \<lparr>fsm_SendEvent = (\<lambda>event swap. (swap, False, None)),
      fsm_Recover = (\<lambda>swap. (swap, False, None)),
      fsm_IsFinished = (\<lambda>swap. False),
      swapStore_ListAll = Inr [],
      swapInSenderFromStore = (\<lambda>swap. swap),
      swapInReceiverFromStore = (\<lambda>swap. swap),
      swapOutSenderFromStore = (\<lambda>swap. swap),
      swapOutReceiverFromStore = (\<lambda>swap. swap),
      HexStringToMessageType = example_tag,
      Unmarshal_SwapOutRequest = (\<lambda>payload. Inr (Some
        \<lparr>sor_ProtocolVersion = 2, sor_SwapId = example_id payload, sor_Asset = [],
         sor_Network = ''mainnet'', sor_Scid = ''600000x1x0'', sor_Amount = 100000,
         sor_Pubkey = []\<rparr>)),
      Unmarshal_SwapOutAgreement = (\<lambda>payload. Inr (Some
        \<lparr>soa_ProtocolVersion = 2, soa_SwapId = example_id payload, soa_Pubkey = [],
         soa_Payreq = []\<rparr>)),
      Unmarshal_OpeningTxBroadcasted = (\<lambda>payload. Inr (Some
        \<lparr>otb_SwapId = example_id payload, otb_Payreq = [], otb_TxId = [], otb_ScriptOut = 0,
         otb_BlindingKey = []\<rparr>)),
      Unmarshal_Cancel = (\<lambda>payload. Inr (Some
        \<lparr>cm_SwapId = example_id payload, cm_Message = []\<rparr>)),
      Unmarshal_SwapInRequest = (\<lambda>payload. Inr (Some
        \<lparr>sir_ProtocolVersion = 2, sir_SwapId = example_id payload, sir_Asset = [],
         sir_Network = ''mainnet'', sir_Scid = ''600000x1x0'', sir_Amount = 100000,
         sir_Pubkey = []\<rparr>)),
      Unmarshal_SwapInAgreement = (\<lambda>payload. Inr (Some
        \<lparr>sia_ProtocolVersion = 2, sia_SwapId = example_id payload, sia_Pubkey = [],
         sia_Premium = 0\<rparr>)),
      Unmarshal_CoopClose = (\<lambda>payload. Inr (Some
        \<lparr>ccm_SwapId = example_id payload, ccm_Message = [], ccm_Privkey = []\<rparr>)),
      MarshalPeerswapMessage = (\<lambda>msg. Inr ([], MESSAGETYPE_OTHER 0)),
      Validate_SwapOutRequest = (\<lambda>msg. None),
      Validate_SwapInRequest = (\<lambda>msg. None),
      Validate_SwapOutAgreement = (\<lambda>msg. None),
      Validate_SwapInAgreement = (\<lambda>msg. None),
      Validate_OpeningTxBroadcasted = (\<lambda>msg chain. None),
      Validate_CoopClose = (\<lambda>msg. None),
      GetChain = (\<lambda>d. (case SwapInRequest d of
                           Some r \<Rightarrow> (if sir_Asset r = [] then btc_chain else l_btc_chain)
                         | None \<Rightarrow> btc_chain)),
      messenger_SendMessage = (\<lambda>peerId msgBytes msgType. None),
      liquidWallet_GetAsset = ''6f0279e9'',
      bitcoinWallet_GetNetwork = ''mainnet'',
      ParseSwapIdFromString = (\<lambda>h. if length h = 64 then Inr (MkSwapId h)
                                    else Inl (ErrorString ''invalid swap id'')),
      PubKey_SerializeCompressed = (\<lambda>k. 2 # k)\<rparr>"

text \<open>
  An active swap-out for the examples: the sender machine with the given id string,
  peer and channel, as \<^verbatim>\<open>SwapOut\<close> leaves it.
\<close>

definition example_swap :: "string \<Rightarrow> string \<Rightarrow> string \<Rightarrow> SwapStateMachine" where
  "example_swap idString peer channelId =
     (newSwapOutSenderFSM (MkSwapId idString))
       \<lparr>Data := (NewSwapData [1] (MkSwapId idString) SWAPTYPE_OUT ''N'' peer)
                  \<lparr>SwapOutRequest := Some
                     \<lparr>sor_ProtocolVersion = 2, sor_SwapId = MkSwapId idString, sor_Asset = [],
                      sor_Network = ''mainnet'', sor_Scid = channelId, sor_Amount = 100000,
                      sor_Pubkey = ''0201''\<rparr>\<rparr>\<rparr>"

definition example_service :: SwapService where
  "example_service = AddActiveSwap (NewSwapService True True) ''0a'' (example_swap ''0a'' ''A'' ''600000x1x0'')"

text \<open>
  Two more state machines for the examples: one that rejects every event, as a machine
  does whose state has no transition for it, and one whose store fails.
\<close>

definition rejecting_externals :: externals where
  "rejecting_externals =
     example_externals\<lparr>fsm_SendEvent := (\<lambda>event swap. (swap, False, Some ErrEventRejected))\<rparr>"

definition failing_externals :: externals where
  "failing_externals =
     example_externals\<lparr>fsm_SendEvent :=
       (\<lambda>event swap. (swap, False, Some (ErrorString ''store failed'')))\<rparr>"

text \<open>Validation that refuses every stage message, for the examples.\<close>

definition refusing_externals :: externals where
  "refusing_externals =
     example_externals
       \<lparr>Validate_SwapOutAgreement := (\<lambda>msg. Some (ErrorString ''bad payreq'')),
        Validate_SwapInAgreement := (\<lambda>msg. Some (ErrorString ''bad premium'')),
        Validate_OpeningTxBroadcasted := (\<lambda>msg chain. Some (ErrorString ''bad txid'')),
        Validate_CoopClose := (\<lambda>msg. Some (ErrorString ''bad privkey''))\<rparr>"

text \<open>
  A service whose one active swap has an id string of 64 characters, the length the
  example parser of swap ids accepts.
\<close>

definition example_long_id :: string where
  "example_long_id = replicate 64 (CHR ''a'')"

definition example_service_long_id :: SwapService where
  "example_service_long_id =
     AddActiveSwap (NewSwapService True True) example_long_id
       (example_swap example_long_id ''A'' ''600000x1x0'')"

text \<open>The random draws of the examples.\<close>

definition example_entropy :: entropy where
  "example_entropy = \<lparr>fresh_SwapId = MkSwapId ''0b'', fresh_privkey = [1]\<rparr>"

text \<open>
  A store for the examples that holds two unfinished swaps on one channel.
\<close>

definition stored_externals :: externals where
  "stored_externals =
     example_externals\<lparr>swapStore_ListAll :=
       Inr [example_swap ''0a'' ''A'' ''600000x1x0'', example_swap ''0b'' ''A'' ''600000x1x0'']\<rparr>"

section \<open>Properties\<close>

subsection \<open>Helper facts about the registry\<close>

lemma RemoveActiveSwap_sentEvents: "sentEvents (RemoveActiveSwap s k) = sentEvents s"
  by (simp add: RemoveActiveSwap_def)

subsection \<open>The payload limit\<close>

text \<open>
  Claim C4. A payload of more than 102 400 bytes makes \<open>OnMessageReceived\<close> return the
  error "Payload is unexpectedly large" with the service unchanged, whatever the
  collaborators are: the type tag is not parsed, nothing is decoded, no machine is
  created, looked up or changed. A payload of at most 102 400 bytes passes the check:
  the call goes on to parse the type tag, so it returns the parser's error when the tag
  does not parse and nil for a tag of no message the switch knows.
\<close>

theorem OnMessageReceived_payload_limit:
  "(length payload > 102400 \<longrightarrow>
      OnMessageReceived ext key s peerId msgTypeString payload
        = (s, Some (ErrorString ''Payload is unexpectedly large'')))
   \<and> (length payload \<le> 102400 \<and> HexStringToMessageType ext msgTypeString = Inl err \<longrightarrow>
      OnMessageReceived ext key s peerId msgTypeString payload = (s, Some err))
   \<and> (length payload \<le> 102400
        \<and> HexStringToMessageType ext msgTypeString = Inr (MESSAGETYPE_OTHER n) \<longrightarrow>
      OnMessageReceived ext key s peerId msgTypeString payload = (s, None))"
  by (simp add: OnMessageReceived_def)

text \<open>
  The limit at its edge: 102 401 bytes are refused, 102 400 bytes reach the parser of
  the type tag.
\<close>

theorem OnMessageReceived_payload_limit_witness:
  "OnMessageReceived example_externals [] example_service ''A'' ''a463'' (replicate 102401 0)
     = (example_service, Some (ErrorString ''Payload is unexpectedly large''))
   \<and> OnMessageReceived example_externals [] example_service ''A'' ''zz'' (replicate 102400 0)
     = (example_service, Some (ErrorString ''invalid message type''))
   \<and> OnMessageReceived example_externals [] example_service ''A'' ''a463'' (replicate 102400 0)
     = (example_service, None)"
  using OnMessageReceived_payload_limit [where payload = "replicate 102401 0" and ext = example_externals
          and key = "[]" and s = example_service and peerId = "''A''" and msgTypeString = "''a463''"]
        OnMessageReceived_payload_limit [where payload = "replicate 102400 0" and ext = example_externals
          and key = "[]" and s = example_service and peerId = "''A''" and msgTypeString = "''zz''"
          and err = "ErrorString ''invalid message type''"]
        OnMessageReceived_payload_limit [where payload = "replicate 102400 0" and ext = example_externals
          and key = "[]" and s = example_service and peerId = "''A''" and msgTypeString = "''a463''"
          and n = 42083]
  by (simp add: example_externals_def example_tag_def)

subsection \<open>Callbacks for a swap that is not active\<close>

text \<open>
  Claim C6, as stated, fails: a callback for a swap id that is not in \<open>activeSwaps\<close> does
  hand \<open>ErrSwapDoesNotExist\<close> to its caller. Here \<open>OnTxConfirmed\<close> is called on a new
  service, which has no active swap.
\<close>

theorem callbacks_unknown_swap_counterexample:
  "snd (OnTxConfirmed example_externals (NewSwapService True True) ''0a'' ''0200'')
     = Some ErrSwapDoesNotExist"
  by (simp add: OnTxConfirmed_def GetActiveSwap_def NewSwapService_def)

text \<open>
  Claim C6, amended. Called with a swap id that is not in \<open>activeSwaps\<close>, each of
  \<open>OnTxConfirmed\<close>, \<open>OnCsvPassed\<close>, \<open>OnFeeInvoicePaid\<close> and \<open>OnClaimInvoicePaid\<close> does no
  further work (the service is unchanged: no machine is touched, no event is sent) and
  returns \<open>ErrSwapDoesNotExist\<close> to its caller.
\<close>

theorem callbacks_unknown_swap:
  "(map_of (activeSwaps s) swapId = None \<longrightarrow>
      OnTxConfirmed ext s swapId txHex = (s, Some ErrSwapDoesNotExist)
      \<and> OnCsvPassed ext s swapId = (s, Some ErrSwapDoesNotExist))
   \<and> (map_of (activeSwaps s) (SwapId_String sid) = None \<longrightarrow>
      OnFeeInvoicePaid ext s sid = (s, Some ErrSwapDoesNotExist)
      \<and> OnClaimInvoicePaid ext s sid = (s, Some ErrSwapDoesNotExist))"
  by (simp add: OnTxConfirmed_def OnCsvPassed_def OnFeeInvoicePaid_def OnClaimInvoicePaid_def
                GetActiveSwap_def)

theorem callbacks_unknown_swap_witness:
  "OnTxConfirmed example_externals example_service ''0b'' ''0200''
     = (example_service, Some ErrSwapDoesNotExist)
   \<and> OnCsvPassed example_externals example_service ''0b'' = (example_service, Some ErrSwapDoesNotExist)
   \<and> OnFeeInvoicePaid example_externals example_service (MkSwapId ''0b'')
     = (example_service, Some ErrSwapDoesNotExist)
   \<and> OnClaimInvoicePaid example_externals example_service (MkSwapId ''0b'')
     = (example_service, Some ErrSwapDoesNotExist)"
  using callbacks_unknown_swap [where s = example_service and swapId = "''0b''"
          and sid = "MkSwapId ''0b''" and ext = example_externals and txHex = "''0200''"]
  by (simp add: example_service_def AddActiveSwap_def NewSwapService_def)

lemma example_id_0a: "example_id [10] = MkSwapId ''0a''"
  by (simp add: example_id_def hextable_def)

subsection \<open>Messages from an unexpected peer\<close>

text \<open>
  Claim C1. A message of a type other than the two request types (SwapOutAgreement,
  SwapInAgreement, OpeningTxBroadcasted, Cancel, CoopClose) that names an active swap
  and comes from a peer other than the swap's \<open>PeerNodeId\<close> makes \<open>OnMessageReceived\<close>
  return \<open>ErrReceivedMessageFromUnexpectedPeer\<close> with the service as it was: the
  handler of the message is not called, no machine is changed and \<open>sentEvents\<close> has no
  new entry. A SwapOutRequest and a SwapInRequest go to their handler whoever the
  sender is.
\<close>

theorem unexpected_peer_rejected:
  "(length payload \<le> 100 * 1024
      \<and> HexStringToMessageType ext msgTypeString = Inr MESSAGETYPE_SWAPOUTAGREEMENT
      \<and> Unmarshal_SwapOutAgreement ext payload = Inr (Some soa)
      \<and> map_of (activeSwaps s) (SwapId_String (soa_SwapId soa)) = Some swap
      \<and> PeerNodeId (Data swap) \<noteq> peerId
      \<longrightarrow> OnMessageReceived ext key s peerId msgTypeString payload
            = (s, Some (ErrReceivedMessageFromUnexpectedPeer peerId (soa_SwapId soa))))
   \<and> (length payload \<le> 100 * 1024
      \<and> HexStringToMessageType ext msgTypeString = Inr MESSAGETYPE_SWAPINAGREEMENT
      \<and> Unmarshal_SwapInAgreement ext payload = Inr (Some sia)
      \<and> map_of (activeSwaps s) (SwapId_String (sia_SwapId sia)) = Some swap
      \<and> PeerNodeId (Data swap) \<noteq> peerId
      \<longrightarrow> OnMessageReceived ext key s peerId msgTypeString payload
            = (s, Some (ErrReceivedMessageFromUnexpectedPeer peerId (sia_SwapId sia))))
   \<and> (length payload \<le> 100 * 1024
      \<and> HexStringToMessageType ext msgTypeString = Inr MESSAGETYPE_OPENINGTXBROADCASTED
      \<and> Unmarshal_OpeningTxBroadcasted ext payload = Inr (Some otb)
      \<and> map_of (activeSwaps s) (SwapId_String (otb_SwapId otb)) = Some swap
      \<and> PeerNodeId (Data swap) \<noteq> peerId
      \<longrightarrow> OnMessageReceived ext key s peerId msgTypeString payload
            = (s, Some (ErrReceivedMessageFromUnexpectedPeer peerId (otb_SwapId otb))))
   \<and> (length payload \<le> 100 * 1024
      \<and> HexStringToMessageType ext msgTypeString = Inr MESSAGETYPE_CANCELED
      \<and> Unmarshal_Cancel ext payload = Inr (Some cm)
      \<and> map_of (activeSwaps s) (SwapId_String (cm_SwapId cm)) = Some swap
      \<and> PeerNodeId (Data swap) \<noteq> peerId
      \<longrightarrow> OnMessageReceived ext key s peerId msgTypeString payload
            = (s, Some (ErrReceivedMessageFromUnexpectedPeer peerId (cm_SwapId cm))))
   \<and> (length payload \<le> 100 * 1024
      \<and> HexStringToMessageType ext msgTypeString = Inr MESSAGETYPE_COOPCLOSE
      \<and> Unmarshal_CoopClose ext payload = Inr (Some ccm)
      \<and> map_of (activeSwaps s) (SwapId_String (ccm_SwapId ccm)) = Some swap
      \<and> PeerNodeId (Data swap) \<noteq> peerId
      \<longrightarrow> OnMessageReceived ext key s peerId msgTypeString payload
            = (s, Some (ErrReceivedMessageFromUnexpectedPeer peerId (ccm_SwapId ccm))))
   \<and> (length payload \<le> 100 * 1024
      \<and> HexStringToMessageType ext msgTypeString = Inr MESSAGETYPE_SWAPOUTREQUEST
      \<and> Unmarshal_SwapOutRequest ext payload = Inr (Some sor)
      \<longrightarrow> OnMessageReceived ext key s peerId msgTypeString payload
            = OnSwapOutRequestReceived ext key s (sor_SwapId sor) peerId sor)
   \<and> (length payload \<le> 100 * 1024
      \<and> HexStringToMessageType ext msgTypeString = Inr MESSAGETYPE_SWAPINREQUEST
      \<and> Unmarshal_SwapInRequest ext payload = Inr (Some sir)
      \<longrightarrow> OnMessageReceived ext key s peerId msgTypeString payload
            = OnSwapInRequestReceived ext key s (sir_SwapId sir) peerId sir)"
  by (simp add: OnMessageReceived_def isMessageSenderExpectedPeer_def GetActiveSwap_def)

text \<open>
  The spec's scenario: the swap \<open>0a\<close> has the peer \<open>A\<close> and the message comes from \<open>B\<close>.
\<close>

theorem unexpected_peer_rejected_witness:
  "OnMessageReceived example_externals [] example_service ''B'' ''a45b'' [10]
     = (example_service, Some (ErrReceivedMessageFromUnexpectedPeer ''B'' (MkSwapId ''0a'')))
   \<and> OnMessageReceived example_externals [] example_service ''B'' ''a459'' [10]
     = (example_service, Some (ErrReceivedMessageFromUnexpectedPeer ''B'' (MkSwapId ''0a'')))
   \<and> OnMessageReceived example_externals [] example_service ''B'' ''a45d'' [10]
     = (example_service, Some (ErrReceivedMessageFromUnexpectedPeer ''B'' (MkSwapId ''0a'')))
   \<and> OnMessageReceived example_externals [] example_service ''B'' ''a45f'' [10]
     = (example_service, Some (ErrReceivedMessageFromUnexpectedPeer ''B'' (MkSwapId ''0a'')))
   \<and> OnMessageReceived example_externals [] example_service ''B'' ''a461'' [10]
     = (example_service, Some (ErrReceivedMessageFromUnexpectedPeer ''B'' (MkSwapId ''0a'')))
   \<and> OnMessageReceived example_externals [] example_service ''B'' ''a457'' [10]
     = OnSwapOutRequestReceived example_externals [] example_service (MkSwapId ''0a'') ''B''
         \<lparr>sor_ProtocolVersion = 2, sor_SwapId = MkSwapId ''0a'', sor_Asset = [],
          sor_Network = ''mainnet'', sor_Scid = ''600000x1x0'', sor_Amount = 100000,
          sor_Pubkey = []\<rparr>
   \<and> OnMessageReceived example_externals [] example_service ''B'' ''a455'' [10]
     = OnSwapInRequestReceived example_externals [] example_service (MkSwapId ''0a'') ''B''
         \<lparr>sir_ProtocolVersion = 2, sir_SwapId = MkSwapId ''0a'', sir_Asset = [],
          sir_Network = ''mainnet'', sir_Scid = ''600000x1x0'', sir_Amount = 100000,
          sir_Pubkey = []\<rparr>"
proof -
  note T = unexpected_peer_rejected [where ext = example_externals and key = "[]"
      and s = example_service and peerId = "''B''" and payload = "[10]"
      and swap = "example_swap ''0a'' ''A'' ''600000x1x0''"]
  note defs = example_externals_def example_tag_def example_id_0a example_service_def
      AddActiveSwap_def NewSwapService_def example_swap_def newSwapOutSenderFSM_def
      NewSwapData_def
  have "OnMessageReceived example_externals [] example_service ''B'' ''a45b'' [10]
     = (example_service, Some (ErrReceivedMessageFromUnexpectedPeer ''B'' (MkSwapId ''0a'')))"
    using T [where msgTypeString = "''a45b''" and soa = "\<lparr>soa_ProtocolVersion = 2,
      soa_SwapId = MkSwapId ''0a'', soa_Pubkey = [], soa_Payreq = []\<rparr>"]
    by (simp add: defs)
  moreover have "OnMessageReceived example_externals [] example_service ''B'' ''a459'' [10]
     = (example_service, Some (ErrReceivedMessageFromUnexpectedPeer ''B'' (MkSwapId ''0a'')))"
    using T [where msgTypeString = "''a459''" and sia = "\<lparr>sia_ProtocolVersion = 2,
      sia_SwapId = MkSwapId ''0a'', sia_Pubkey = [], sia_Premium = 0\<rparr>"]
    by (simp add: defs)
  moreover have "OnMessageReceived example_externals [] example_service ''B'' ''a45d'' [10]
     = (example_service, Some (ErrReceivedMessageFromUnexpectedPeer ''B'' (MkSwapId ''0a'')))"
    using T [where msgTypeString = "''a45d''" and otb = "\<lparr>otb_SwapId = MkSwapId ''0a'',
      otb_Payreq = [], otb_TxId = [], otb_ScriptOut = 0, otb_BlindingKey = []\<rparr>"]
    by (simp add: defs)
  moreover have "OnMessageReceived example_externals [] example_service ''B'' ''a45f'' [10]
     = (example_service, Some (ErrReceivedMessageFromUnexpectedPeer ''B'' (MkSwapId ''0a'')))"
    using T [where msgTypeString = "''a45f''" and cm = "\<lparr>cm_SwapId = MkSwapId ''0a'',
      cm_Message = []\<rparr>"]
    by (simp add: defs)
  moreover have "OnMessageReceived example_externals [] example_service ''B'' ''a461'' [10]
     = (example_service, Some (ErrReceivedMessageFromUnexpectedPeer ''B'' (MkSwapId ''0a'')))"
    using T [where msgTypeString = "''a461''" and ccm = "\<lparr>ccm_SwapId = MkSwapId ''0a'',
      ccm_Message = [], ccm_Privkey = []\<rparr>"]
    by (simp add: defs)
  moreover have "OnMessageReceived example_externals [] example_service ''B'' ''a457'' [10]
     = OnSwapOutRequestReceived example_externals [] example_service (MkSwapId ''0a'') ''B''
         \<lparr>sor_ProtocolVersion = 2, sor_SwapId = MkSwapId ''0a'', sor_Asset = [],
          sor_Network = ''mainnet'', sor_Scid = ''600000x1x0'', sor_Amount = 100000,
          sor_Pubkey = []\<rparr>"
    using T [where msgTypeString = "''a457''" and sor = "\<lparr>sor_ProtocolVersion = 2,
      sor_SwapId = MkSwapId ''0a'', sor_Asset = [], sor_Network = ''mainnet'',
      sor_Scid = ''600000x1x0'', sor_Amount = 100000, sor_Pubkey = []\<rparr>"]
    by (simp add: example_externals_def example_tag_def example_id_0a)
  moreover have "OnMessageReceived example_externals [] example_service ''B'' ''a455'' [10]
     = OnSwapInRequestReceived example_externals [] example_service (MkSwapId ''0a'') ''B''
         \<lparr>sir_ProtocolVersion = 2, sir_SwapId = MkSwapId ''0a'', sir_Asset = [],
          sir_Network = ''mainnet'', sir_Scid = ''600000x1x0'', sir_Amount = 100000,
          sir_Pubkey = []\<rparr>"
    using T [where msgTypeString = "''a455''" and sir = "\<lparr>sir_ProtocolVersion = 2,
      sir_SwapId = MkSwapId ''0a'', sir_Asset = [], sir_Network = ''mainnet'',
      sir_Scid = ''600000x1x0'', sir_Amount = 100000, sir_Pubkey = []\<rparr>"]
    by (simp add: example_externals_def example_tag_def example_id_0a)
  ultimately show ?thesis by blast
qed

subsection \<open>Chain callbacks and rejected events\<close>

text \<open>
  Claim C7. For an active swap, when \<^verbatim>\<open>SendEvent\<close> inside \<open>OnTxConfirmed\<close> or \<open>OnCsvPassed\<close>
  returns \<open>ErrEventRejected\<close>, the call returns nil; every other error of \<^verbatim>\<open>SendEvent\<close> is
  returned to the caller.
\<close>

theorem chain_callbacks_swallow_ErrEventRejected:
  "(map_of (activeSwaps s) swapId = Some swap
      \<and> snd (snd (fsm_SendEvent ext Event_OnTxConfirmed
                     (swap\<lparr>Data := (Data swap)\<lparr>OpeningTxHex := txHex\<rparr>\<rparr>))) = Some ErrEventRejected
      \<longrightarrow> snd (OnTxConfirmed ext s swapId txHex) = None)
   \<and> (map_of (activeSwaps s) swapId = Some swap
      \<and> snd (snd (fsm_SendEvent ext Event_OnTxConfirmed
                     (swap\<lparr>Data := (Data swap)\<lparr>OpeningTxHex := txHex\<rparr>\<rparr>))) = Some e
      \<and> e \<noteq> ErrEventRejected
      \<longrightarrow> snd (OnTxConfirmed ext s swapId txHex) = Some e)
   \<and> (map_of (activeSwaps s) swapId = Some swap
      \<and> snd (snd (fsm_SendEvent ext Event_OnCsvPassed swap)) = Some ErrEventRejected
      \<longrightarrow> snd (OnCsvPassed ext s swapId) = None)
   \<and> (map_of (activeSwaps s) swapId = Some swap
      \<and> snd (snd (fsm_SendEvent ext Event_OnCsvPassed swap)) = Some e
      \<and> e \<noteq> ErrEventRejected
      \<longrightarrow> snd (OnCsvPassed ext s swapId) = Some e)"
  by (auto simp add: OnTxConfirmed_def OnCsvPassed_def GetActiveSwap_def SendEvent_def
           split: prod.splits)

text \<open>
  The active swap \<open>0a\<close> with a machine that rejects every event, and with one whose
  store fails.
\<close>

theorem chain_callbacks_swallow_ErrEventRejected_witness:
  "snd (OnTxConfirmed rejecting_externals example_service ''0a'' ''0200'') = None
   \<and> snd (OnTxConfirmed failing_externals example_service ''0a'' ''0200'')
       = Some (ErrorString ''store failed'')
   \<and> snd (OnCsvPassed rejecting_externals example_service ''0a'') = None
   \<and> snd (OnCsvPassed failing_externals example_service ''0a'') = Some (ErrorString ''store failed'')"
  using chain_callbacks_swallow_ErrEventRejected [where s = example_service and swapId = "''0a''"
          and swap = "example_swap ''0a'' ''A'' ''600000x1x0''" and ext = rejecting_externals
          and txHex = "''0200''"]
        chain_callbacks_swallow_ErrEventRejected [where s = example_service and swapId = "''0a''"
          and swap = "example_swap ''0a'' ''A'' ''600000x1x0''" and ext = failing_externals
          and txHex = "''0200''" and e = "ErrorString ''store failed''"]
  by (simp add: example_service_def AddActiveSwap_def NewSwapService_def rejecting_externals_def
                failing_externals_def)

subsection \<open>The opening transaction of a rejected confirmation\<close>

text \<open>
  Claim C10. \<open>OnTxConfirmed\<close> assigns \<open>txHex\<close> to \<^verbatim>\<open>swap.Data.OpeningTxHex\<close> before it
  delivers \<open>Event_OnTxConfirmed\<close>: for an active swap the one event of the call reaches
  a machine whose \<^verbatim>\<open>SwapData\<close> already has the new value. So when the machine rejects
  the event and leaves itself as it is, the call returns nil and the registered swap
  keeps the new \<open>OpeningTxHex\<close> in place of the one stored before: the service after
  the call is not the service before it.
\<close>

theorem OnTxConfirmed_overwrites_OpeningTxHex:
  "(map_of (activeSwaps s) swapId = Some swap \<longrightarrow>
      sentEvents (fst (OnTxConfirmed ext s swapId txHex))
        = sentEvents s @ [(swapId, Event_OnTxConfirmed, (Data swap)\<lparr>OpeningTxHex := txHex\<rparr>)])
   \<and> (map_of (activeSwaps s) swapId = Some swap
      \<and> fsm_SendEvent ext Event_OnTxConfirmed (swap\<lparr>Data := (Data swap)\<lparr>OpeningTxHex := txHex\<rparr>\<rparr>)
          = (swap\<lparr>Data := (Data swap)\<lparr>OpeningTxHex := txHex\<rparr>\<rparr>, finished, Some ErrEventRejected)
      \<longrightarrow> OnTxConfirmed ext s swapId txHex
            = (s\<lparr>activeSwaps := AList.update swapId
                                   (swap\<lparr>Data := (Data swap)\<lparr>OpeningTxHex := txHex\<rparr>\<rparr>)
                                   (activeSwaps s),
                 sentEvents := sentEvents s
                   @ [(swapId, Event_OnTxConfirmed, (Data swap)\<lparr>OpeningTxHex := txHex\<rparr>)]\<rparr>,
               None)
          \<and> map_of (activeSwaps (fst (OnTxConfirmed ext s swapId txHex))) swapId
            = Some (swap\<lparr>Data := (Data swap)\<lparr>OpeningTxHex := txHex\<rparr>\<rparr>))"
proof -
  have "sentEvents (fst (OnTxConfirmed ext s swapId txHex))
        = sentEvents s @ [(swapId, Event_OnTxConfirmed, (Data swap)\<lparr>OpeningTxHex := txHex\<rparr>)]"
    if "map_of (activeSwaps s) swapId = Some swap"
    using that
    by (simp add: OnTxConfirmed_def GetActiveSwap_def SendEvent_def case_prod_beta
                  RemoveActiveSwap_sentEvents)
  then show ?thesis
    by (simp add: OnTxConfirmed_def GetActiveSwap_def SendEvent_def update_conv')
qed

text \<open>
  The swap \<open>0a\<close> has an empty \<open>OpeningTxHex\<close>; after the rejected confirmation it has
  the hex of the call.
\<close>

theorem OnTxConfirmed_overwrites_OpeningTxHex_witness:
  "map_of (activeSwaps example_service) ''0a'' = Some (example_swap ''0a'' ''A'' ''600000x1x0'')
   \<and> OpeningTxHex (Data (example_swap ''0a'' ''A'' ''600000x1x0'')) = []
   \<and> snd (OnTxConfirmed rejecting_externals example_service ''0a'' ''0200'') = None
   \<and> map_of (activeSwaps (fst (OnTxConfirmed rejecting_externals example_service ''0a'' ''0200''))) ''0a''
       = Some ((example_swap ''0a'' ''A'' ''600000x1x0'')
                 \<lparr>Data := (Data (example_swap ''0a'' ''A'' ''600000x1x0''))\<lparr>OpeningTxHex := ''0200''\<rparr>\<rparr>)"
  using OnTxConfirmed_overwrites_OpeningTxHex [where s = example_service and swapId = "''0a''"
          and swap = "example_swap ''0a'' ''A'' ''600000x1x0''" and ext = rejecting_externals
          and txHex = "''0200''" and finished = False]
  by (simp add: example_service_def AddActiveSwap_def NewSwapService_def rejecting_externals_def
                example_swap_def newSwapOutSenderFSM_def NewSwapData_def)

subsection \<open>Stage messages that fail validation\<close>

lemma HandleInvalidMessage_sentEvents:
  "sentEvents (fst (HandleInvalidMessage ext s key swap err))
     = sentEvents s @ [(key, Event_OnInvalid_Message,
                        (Data swap)\<lparr>CancelMessage := ''invalid request '' @ Error err\<rparr>)]"
  by (auto simp add: HandleInvalidMessage_def SendEvent_def RemoveActiveSwap_sentEvents
           split: prod.splits option.splits)

lemma OnSwapInAgreementReceived_invalid:
  "map_of (activeSwaps s) (SwapId_String (sia_SwapId sia)) = Some swap
   \<Longrightarrow> Validate_SwapInAgreement ext sia = Some err
   \<Longrightarrow> OnSwapInAgreementReceived ext s sia
         = HandleInvalidMessage ext s (SwapId_String (sia_SwapId sia)) swap err"
  by (simp add: OnSwapInAgreementReceived_def GetActiveSwap_def HandleInvalidMessage_def)

lemma stage_handlers_invalid:
  "map_of (activeSwaps s) (SwapId_String (soa_SwapId soa)) = Some swap
   \<Longrightarrow> Validate_SwapOutAgreement ext soa = Some err
   \<Longrightarrow> OnSwapOutAgreementReceived ext s soa
         = HandleInvalidMessage ext s (SwapId_String (soa_SwapId soa)) swap err"
  "map_of (activeSwaps s) (SwapId_String (otb_SwapId otb)) = Some swap
   \<Longrightarrow> Validate_OpeningTxBroadcasted ext otb (GetChain ext (Data swap)) = Some err
   \<Longrightarrow> OnTxOpenedMessage ext s otb
         = HandleInvalidMessage ext s (SwapId_String (otb_SwapId otb)) swap err"
  "map_of (activeSwaps s) (SwapId_String swapId) = Some swap
   \<Longrightarrow> Validate_CoopClose ext ccm = Some err
   \<Longrightarrow> OnCoopCloseReceived ext s swapId ccm
         = HandleInvalidMessage ext s (SwapId_String swapId) swap err"
  by (simp_all add: OnSwapOutAgreementReceived_def OnTxOpenedMessage_def
                    OnCoopCloseReceived_def GetActiveSwap_def)

text \<open>
  Claim C5. For a SwapOutAgreement, SwapInAgreement, OpeningTxBroadcasted or CoopClose
  message that names an active swap and whose \<^verbatim>\<open>Validate()\<close> returns an error, the handler
  does what \<open>HandleInvalidMessage\<close> does (\<open>OnSwapInAgreementReceived\<close> by its own copy of
  that code): the one event it sends to the machine is \<open>Event_OnInvalid_Message\<close>, not
  the event of the stage, and the \<^verbatim>\<open>SwapData\<close> the machine holds at that moment is the
  swap's own with \<open>CancelMessage\<close> set to "invalid request " followed by the error: the
  message is not stored in it.
\<close>

theorem invalid_stage_message:
  "(map_of (activeSwaps s) (SwapId_String (soa_SwapId soa)) = Some swap
      \<and> Validate_SwapOutAgreement ext soa = Some err
      \<longrightarrow> OnSwapOutAgreementReceived ext s soa
            = HandleInvalidMessage ext s (SwapId_String (soa_SwapId soa)) swap err
          \<and> sentEvents (fst (OnSwapOutAgreementReceived ext s soa))
            = sentEvents s @ [(SwapId_String (soa_SwapId soa), Event_OnInvalid_Message,
                 (Data swap)\<lparr>CancelMessage := ''invalid request '' @ Error err\<rparr>)])
   \<and> (map_of (activeSwaps s) (SwapId_String (sia_SwapId sia)) = Some swap
      \<and> Validate_SwapInAgreement ext sia = Some err
      \<longrightarrow> OnSwapInAgreementReceived ext s sia
            = HandleInvalidMessage ext s (SwapId_String (sia_SwapId sia)) swap err
          \<and> sentEvents (fst (OnSwapInAgreementReceived ext s sia))
            = sentEvents s @ [(SwapId_String (sia_SwapId sia), Event_OnInvalid_Message,
                 (Data swap)\<lparr>CancelMessage := ''invalid request '' @ Error err\<rparr>)])
   \<and> (map_of (activeSwaps s) (SwapId_String (otb_SwapId otb)) = Some swap
      \<and> Validate_OpeningTxBroadcasted ext otb (GetChain ext (Data swap)) = Some err
      \<longrightarrow> OnTxOpenedMessage ext s otb
            = HandleInvalidMessage ext s (SwapId_String (otb_SwapId otb)) swap err
          \<and> sentEvents (fst (OnTxOpenedMessage ext s otb))
            = sentEvents s @ [(SwapId_String (otb_SwapId otb), Event_OnInvalid_Message,
                 (Data swap)\<lparr>CancelMessage := ''invalid request '' @ Error err\<rparr>)])
   \<and> (map_of (activeSwaps s) (SwapId_String swapId) = Some swap
      \<and> Validate_CoopClose ext ccm = Some err
      \<longrightarrow> OnCoopCloseReceived ext s swapId ccm
            = HandleInvalidMessage ext s (SwapId_String swapId) swap err
          \<and> sentEvents (fst (OnCoopCloseReceived ext s swapId ccm))
            = sentEvents s @ [(SwapId_String swapId, Event_OnInvalid_Message,
                 (Data swap)\<lparr>CancelMessage := ''invalid request '' @ Error err\<rparr>)])"
  by (simp add: OnSwapInAgreementReceived_invalid stage_handlers_invalid
                HandleInvalidMessage_sentEvents)

text \<open>
  The active swap \<open>0a\<close> and a validation that refuses each of the four messages.
\<close>

theorem invalid_stage_message_witness:
  "sentEvents (fst (OnSwapOutAgreementReceived refusing_externals example_service
       \<lparr>soa_ProtocolVersion = 2, soa_SwapId = MkSwapId ''0a'', soa_Pubkey = [], soa_Payreq = []\<rparr>))
     = [(''0a'', Event_OnInvalid_Message,
         (Data (example_swap ''0a'' ''A'' ''600000x1x0''))\<lparr>CancelMessage := ''invalid request bad payreq''\<rparr>)]
   \<and> sentEvents (fst (OnSwapInAgreementReceived refusing_externals example_service
       \<lparr>sia_ProtocolVersion = 2, sia_SwapId = MkSwapId ''0a'', sia_Pubkey = [], sia_Premium = 0\<rparr>))
     = [(''0a'', Event_OnInvalid_Message,
         (Data (example_swap ''0a'' ''A'' ''600000x1x0''))\<lparr>CancelMessage := ''invalid request bad premium''\<rparr>)]
   \<and> sentEvents (fst (OnTxOpenedMessage refusing_externals example_service
       \<lparr>otb_SwapId = MkSwapId ''0a'', otb_Payreq = [], otb_TxId = [], otb_ScriptOut = 0,
        otb_BlindingKey = []\<rparr>))
     = [(''0a'', Event_OnInvalid_Message,
         (Data (example_swap ''0a'' ''A'' ''600000x1x0''))\<lparr>CancelMessage := ''invalid request bad txid''\<rparr>)]
   \<and> sentEvents (fst (OnCoopCloseReceived refusing_externals example_service (MkSwapId ''0a'')
       \<lparr>ccm_SwapId = MkSwapId ''0a'', ccm_Message = [], ccm_Privkey = []\<rparr>))
     = [(''0a'', Event_OnInvalid_Message,
         (Data (example_swap ''0a'' ''A'' ''600000x1x0''))\<lparr>CancelMessage := ''invalid request bad privkey''\<rparr>)]
   \<and> SwapOutAgreement (Data (example_swap ''0a'' ''A'' ''600000x1x0'')) = None"
proof -
  have active: "map_of (activeSwaps example_service) ''0a'' = Some (example_swap ''0a'' ''A'' ''600000x1x0'')"
    by (simp add: example_service_def AddActiveSwap_def NewSwapService_def)
  have none: "sentEvents example_service = []"
    by (simp add: example_service_def AddActiveSwap_def NewSwapService_def)
  have refused:
    "Validate_SwapOutAgreement refusing_externals soa = Some (ErrorString ''bad payreq'')"
    "Validate_SwapInAgreement refusing_externals sia = Some (ErrorString ''bad premium'')"
    "Validate_OpeningTxBroadcasted refusing_externals otb chain = Some (ErrorString ''bad txid'')"
    "Validate_CoopClose refusing_externals ccm = Some (ErrorString ''bad privkey'')"
    for soa sia otb chain ccm
    by (simp_all add: refusing_externals_def)
  note T = invalid_stage_message [where s = example_service and ext = refusing_externals
      and swap = "example_swap ''0a'' ''A'' ''600000x1x0''" and swapId = "MkSwapId ''0a''"]
  have "sentEvents (fst (OnSwapOutAgreementReceived refusing_externals example_service
       \<lparr>soa_ProtocolVersion = 2, soa_SwapId = MkSwapId ''0a'', soa_Pubkey = [], soa_Payreq = []\<rparr>))
     = [(''0a'', Event_OnInvalid_Message,
         (Data (example_swap ''0a'' ''A'' ''600000x1x0''))\<lparr>CancelMessage := ''invalid request bad payreq''\<rparr>)]"
    using T [where err = "ErrorString ''bad payreq''" and soa = "\<lparr>soa_ProtocolVersion = 2,
      soa_SwapId = MkSwapId ''0a'', soa_Pubkey = [], soa_Payreq = []\<rparr>"] active none refused
    by (simp cong: conj_cong)
  moreover have "sentEvents (fst (OnSwapInAgreementReceived refusing_externals example_service
       \<lparr>sia_ProtocolVersion = 2, sia_SwapId = MkSwapId ''0a'', sia_Pubkey = [], sia_Premium = 0\<rparr>))
     = [(''0a'', Event_OnInvalid_Message,
         (Data (example_swap ''0a'' ''A'' ''600000x1x0''))\<lparr>CancelMessage := ''invalid request bad premium''\<rparr>)]"
    using T [where err = "ErrorString ''bad premium''" and sia = "\<lparr>sia_ProtocolVersion = 2,
      sia_SwapId = MkSwapId ''0a'', sia_Pubkey = [], sia_Premium = 0\<rparr>"] active none refused
    by (simp cong: conj_cong)
  moreover have "sentEvents (fst (OnTxOpenedMessage refusing_externals example_service
       \<lparr>otb_SwapId = MkSwapId ''0a'', otb_Payreq = [], otb_TxId = [], otb_ScriptOut = 0,
        otb_BlindingKey = []\<rparr>))
     = [(''0a'', Event_OnInvalid_Message,
         (Data (example_swap ''0a'' ''A'' ''600000x1x0''))\<lparr>CancelMessage := ''invalid request bad txid''\<rparr>)]"
    using T [where err = "ErrorString ''bad txid''" and otb = "\<lparr>otb_SwapId = MkSwapId ''0a'',
      otb_Payreq = [], otb_TxId = [], otb_ScriptOut = 0, otb_BlindingKey = []\<rparr>"] active none refused
    by (simp cong: conj_cong)
  moreover have "sentEvents (fst (OnCoopCloseReceived refusing_externals example_service (MkSwapId ''0a'')
       \<lparr>ccm_SwapId = MkSwapId ''0a'', ccm_Message = [], ccm_Privkey = []\<rparr>))
     = [(''0a'', Event_OnInvalid_Message,
         (Data (example_swap ''0a'' ''A'' ''600000x1x0''))\<lparr>CancelMessage := ''invalid request bad privkey''\<rparr>)]"
    using T [where err = "ErrorString ''bad privkey''" and ccm = "\<lparr>ccm_SwapId = MkSwapId ''0a'',
      ccm_Message = [], ccm_Privkey = []\<rparr>"] active none refused
    by (simp cong: conj_cong)
  moreover have "SwapOutAgreement (Data (example_swap ''0a'' ''A'' ''600000x1x0'')) = None"
    by (simp add: example_swap_def NewSwapData_def)
  ultimately show ?thesis by blast
qed

subsection \<open>Payment descriptions\<close>

text \<open>
  The label of a description is what stands before the first separator; a description
  without separator has the empty label. A label that is not empty is followed by the
  separator in the description, so the slice \<open>OnPayment\<close> takes after the label "fee"
  or "claim" and the separator is in range.
\<close>

lemma strings_Index_absent: "c \<notin> set d \<Longrightarrow> strings_Index d [c] = None"
  by (induction d) auto

lemma strings_Index_first:
  "c \<notin> set label \<Longrightarrow> strings_Index (label @ c # rest) [c] = Some (length label)"
  by (induction label) auto

lemma getPaymentLabel_no_separator: "CHR ''_'' \<notin> set d \<Longrightarrow> getPaymentLabel d = []"
  by (simp add: getPaymentLabel_def strings_SplitN_2_def PaymentLabelSeparator_def
                strings_Index_absent)

lemma getPaymentLabel_label:
  "CHR ''_'' \<notin> set label \<Longrightarrow> getPaymentLabel (label @ ''_'' @ rest) = label"
  by (simp add: getPaymentLabel_def strings_SplitN_2_def PaymentLabelSeparator_def
                strings_Index_first)

lemma getPaymentLabel_fee: "getPaymentLabel (''fee_'' @ x) = ''fee''"
  using getPaymentLabel_label [of "''fee''" x] by simp

lemma getPaymentLabel_claim: "getPaymentLabel (''claim_'' @ x) = ''claim''"
  using getPaymentLabel_label [of "''claim''" x] by simp

lemma strings_Index_Some:
  "strings_Index d [c] = Some m \<Longrightarrow> m < length d \<and> d ! m = c"
proof (induction d arbitrary: m)
  case Nil
  then show ?case by simp
next
  case (Cons a d)
  show ?case
  proof (cases "a = c")
    case True
    with Cons.prems show ?thesis by simp
  next
    case False
    with Cons.prems obtain k where k: "strings_Index d [c] = Some k" "m = Suc k"
      by auto
    with Cons.IH [of k] show ?thesis by simp
  qed
qed

lemma getPaymentLabel_prefix:
  assumes "getPaymentLabel d = label" and "label \<noteq> []"
  shows "take (Suc (length label)) d = label @ ''_''"
proof -
  from assms obtain m where m: "strings_Index d ''_'' = Some m" and l: "label = take m d"
    by (auto simp add: getPaymentLabel_def strings_SplitN_2_def PaymentLabelSeparator_def
             split: option.splits)
  from strings_Index_Some [OF m] have "m < length d" and "d ! m = CHR ''_''"
    by simp_all
  with l show ?thesis
    by (simp add: take_Suc_conv_app_nth)
qed

lemma getPaymentLabel_other:
  assumes "take 4 d \<noteq> ''fee_''" and "take 6 d \<noteq> ''claim_''"
  shows "getPaymentLabel d \<noteq> ''fee'' \<and> getPaymentLabel d \<noteq> ''claim''"
  using assms getPaymentLabel_prefix [of d "''fee''"] getPaymentLabel_prefix [of d "''claim''"]
  by (auto simp add: eval_nat_numeral)

text \<open>
  Claim C8. For a description "fee_" followed by a string the parser of swap ids
  accepts, \<open>OnPayment\<close> is the call of \<open>OnFeeInvoicePaid\<close> with the parsed id, and for
  "claim_" followed by such a string the call of \<open>OnClaimInvoicePaid\<close> with it. For
  every other description it calls neither and leaves the service as it is: when the
  parser refuses the id, when the description starts with neither "fee_" nor "claim_",
  in particular when it has no separator or a label other than "fee" and "claim".
  \<open>OnPayment\<close> has no result, so no error reaches its caller in any case.
\<close>

theorem OnPayment_dispatch:
  "(ParseSwapIdFromString ext x = Inr swapId \<longrightarrow>
      OnPayment ext s (''fee_'' @ x) = fst (OnFeeInvoicePaid ext s swapId)
      \<and> OnPayment ext s (''claim_'' @ x) = fst (OnClaimInvoicePaid ext s swapId))
   \<and> (ParseSwapIdFromString ext x = Inl err \<longrightarrow>
      OnPayment ext s (''fee_'' @ x) = s \<and> OnPayment ext s (''claim_'' @ x) = s)
   \<and> (take 4 description \<noteq> ''fee_'' \<and> take 6 description \<noteq> ''claim_'' \<longrightarrow>
      OnPayment ext s description = s)
   \<and> (CHR ''_'' \<notin> set description \<longrightarrow> OnPayment ext s description = s)
   \<and> (CHR ''_'' \<notin> set label \<and> label \<noteq> ''fee'' \<and> label \<noteq> ''claim'' \<longrightarrow>
      OnPayment ext s (label @ ''_'' @ rest) = s)"
proof -
  have "OnPayment ext s (''fee_'' @ x) = fst (OnFeeInvoicePaid ext s swapId)"
       "OnPayment ext s (''claim_'' @ x) = fst (OnClaimInvoicePaid ext s swapId)"
    if "ParseSwapIdFromString ext x = Inr swapId"
    using that getPaymentLabel_fee [of x] getPaymentLabel_claim [of x]
    by (simp_all add: OnPayment_def)
  moreover have "OnPayment ext s (''fee_'' @ x) = s" "OnPayment ext s (''claim_'' @ x) = s"
    if "ParseSwapIdFromString ext x = Inl err"
    using that getPaymentLabel_fee [of x] getPaymentLabel_claim [of x]
    by (simp_all add: OnPayment_def)
  moreover have "OnPayment ext s description = s"
    if "take 4 description \<noteq> ''fee_''" and "take 6 description \<noteq> ''claim_''"
    using getPaymentLabel_other [OF that] by (simp add: OnPayment_def)
  moreover have "OnPayment ext s description = s" if "CHR ''_'' \<notin> set description"
    using getPaymentLabel_no_separator [OF that] by (simp add: OnPayment_def)
  moreover have "OnPayment ext s (label @ ''_'' @ rest) = s"
    if "CHR ''_'' \<notin> set label" and "label \<noteq> ''fee''" and "label \<noteq> ''claim''"
    using getPaymentLabel_label [OF that(1), of rest] that(2,3) by (simp add: OnPayment_def)
  ultimately show ?thesis by blast
qed

text \<open>
  Payments for the active swap are delivered as \<open>Event_OnFeeInvoicePaid\<close> and
  \<open>Event_OnClaimInvoicePaid\<close>; an id that does not parse, the label "feed", a
  description without separator and the label "refund" change nothing.
\<close>

theorem OnPayment_dispatch_witness:
  "sentEvents (OnPayment example_externals example_service_long_id (''fee_'' @ example_long_id))
     = [(example_long_id, Event_OnFeeInvoicePaid, Data (example_swap example_long_id ''A'' ''600000x1x0''))]
   \<and> sentEvents (OnPayment example_externals example_service_long_id (''claim_'' @ example_long_id))
     = [(example_long_id, Event_OnClaimInvoicePaid, Data (example_swap example_long_id ''A'' ''600000x1x0''))]
   \<and> OnPayment example_externals example_service_long_id ''fee_0a'' = example_service_long_id
   \<and> OnPayment example_externals example_service_long_id ''claim_0a'' = example_service_long_id
   \<and> OnPayment example_externals example_service_long_id ''feed_0a'' = example_service_long_id
   \<and> OnPayment example_externals example_service_long_id ''fee'' = example_service_long_id
   \<and> OnPayment example_externals example_service_long_id ''refund_0a'' = example_service_long_id"
proof -
  have parse: "ParseSwapIdFromString example_externals example_long_id = Inr (MkSwapId example_long_id)"
    by (simp add: example_externals_def example_long_id_def)
  have bad: "ParseSwapIdFromString example_externals ''0a'' = Inl (ErrorString ''invalid swap id'')"
    by (simp add: example_externals_def)
  have fee: "sentEvents (fst (OnFeeInvoicePaid example_externals example_service_long_id (MkSwapId example_long_id)))
     = [(example_long_id, Event_OnFeeInvoicePaid, Data (example_swap example_long_id ''A'' ''600000x1x0''))]"
    by (simp add: OnFeeInvoicePaid_def GetActiveSwap_def SendEvent_def example_service_long_id_def
                  AddActiveSwap_def NewSwapService_def example_externals_def)
  have claim: "sentEvents (fst (OnClaimInvoicePaid example_externals example_service_long_id (MkSwapId example_long_id)))
     = [(example_long_id, Event_OnClaimInvoicePaid, Data (example_swap example_long_id ''A'' ''600000x1x0''))]"
    by (simp add: OnClaimInvoicePaid_def GetActiveSwap_def SendEvent_def example_service_long_id_def
                  AddActiveSwap_def NewSwapService_def example_externals_def)
  note T = OnPayment_dispatch [where ext = example_externals and s = example_service_long_id]
  from T [where x = example_long_id and swapId = "MkSwapId example_long_id"] parse fee claim
  have "sentEvents (OnPayment example_externals example_service_long_id (''fee_'' @ example_long_id))
     = [(example_long_id, Event_OnFeeInvoicePaid, Data (example_swap example_long_id ''A'' ''600000x1x0''))]
   \<and> sentEvents (OnPayment example_externals example_service_long_id (''claim_'' @ example_long_id))
     = [(example_long_id, Event_OnClaimInvoicePaid, Data (example_swap example_long_id ''A'' ''600000x1x0''))]"
    by (simp del: append.simps)
  moreover from T [where x = "''0a''" and err = "ErrorString ''invalid swap id''"] bad
  have "OnPayment example_externals example_service_long_id ''fee_0a'' = example_service_long_id
   \<and> OnPayment example_externals example_service_long_id ''claim_0a'' = example_service_long_id"
    by simp
  moreover from T [where description = "''feed_0a''"]
  have "OnPayment example_externals example_service_long_id ''feed_0a'' = example_service_long_id"
    by simp
  moreover from T [where description = "''fee''"]
  have "OnPayment example_externals example_service_long_id ''fee'' = example_service_long_id"
    by simp
  moreover from T [where label = "''refund''" and rest = "''0a''"]
  have "OnPayment example_externals example_service_long_id ''refund_0a'' = example_service_long_id"
    by simp
  ultimately show ?thesis by blast
qed

subsection \<open>The request staged by \<open>SwapOut\<close>\<close>

lemma SendEvent_sentEvents:
  "SendEvent ext s key swap event = (s1, swap1, fin, err)
   \<Longrightarrow> sentEvents s1 = sentEvents s @ [(key, event, Data swap)]"
  by (auto simp add: SendEvent_def split: prod.splits)

lemma AddActiveSwap_sentEvents: "sentEvents (AddActiveSwap s k swap) = sentEvents s"
  by (simp add: AddActiveSwap_def)

lemma writeSwap_sentEvents: "sentEvents (writeSwap s k swap) = sentEvents s"
  by (simp add: writeSwap_def)

lemma example_wallets:
  "liquidWallet_GetAsset example_externals = ''6f0279e9''"
  "bitcoinWallet_GetNetwork example_externals = ''mainnet''"
  "PubKey_SerializeCompressed example_externals k = 2 # k"
  by (simp_all add: example_externals_def)

text \<open>
  Claim C9, as stated, fails in its clause on \<open>Asset\<close> and \<open>Network\<close>: \<open>SwapOut\<close> does not
  check the chain, and for a chain that is neither "btc" nor "l-btc" it returns without
  error with both fields of the request empty.
\<close>

theorem SwapOut_request_counterexample:
  "\<not> isl (snd (SwapOut example_externals example_entropy (NewSwapService True True)
                  ''P'' ''foo'' ''600000x1x0'' ''N'' 100000))
   \<and> map_option sor_Asset (SwapOutRequest (Data (projr (snd
         (SwapOut example_externals example_entropy (NewSwapService True True)
            ''P'' ''foo'' ''600000x1x0'' ''N'' 100000))))) = Some []
   \<and> map_option sor_Network (SwapOutRequest (Data (projr (snd
         (SwapOut example_externals example_entropy (NewSwapService True True)
            ''P'' ''foo'' ''600000x1x0'' ''N'' 100000))))) = Some []"
  by (simp add: SwapOut_def hasActiveSwapOnChannel_def NewSwapService_def example_externals_def
                SendEvent_def Let_def l_btc_chain_def btc_chain_def NewSwapData_def
                newSwapOutSenderFSM_def AddActiveSwap_def writeSwap_def example_entropy_def)

text \<open>
  Claim C9, amended. When \<open>SwapOut\<close> returns without error, it has delivered exactly one
  event, \<open>Event_OnSwapOutStarted\<close>, to the machine registered under the freshly minted
  swap id, and the \<^verbatim>\<open>SwapData\<close> of the machine at that moment holds the staged request:
  protocol version 2, the minted swap id, the given scid and amount, and as pubkey the
  hex encoding of the compressed public key of the swap's private key. \<open>Asset\<close> is the
  Liquid wallet's asset when the chain is "l-btc" and empty otherwise; \<open>Network\<close> is the
  Bitcoin wallet's network when the chain is "btc" and empty otherwise (so both are empty
  for any other chain). \<open>NextMessage\<close> and \<open>NextMessageType\<close> hold the marshalled
  request.
\<close>

theorem SwapOut_request:
  "SwapOut ext rnd s peer chain channelId initiator amount = (s', Inr swap) \<longrightarrow>
     (\<exists>d request.
        sentEvents s' = sentEvents s @ [(SwapId_String (fresh_SwapId rnd), Event_OnSwapOutStarted, d)]
        \<and> SwapOutRequest d = Some request
        \<and> sd_Id d = fresh_SwapId rnd
        \<and> sd_Privkey d = fresh_privkey rnd
        \<and> sor_ProtocolVersion request = 2
        \<and> sor_SwapId request = fresh_SwapId rnd
        \<and> sor_Scid request = channelId
        \<and> sor_Amount request = amount
        \<and> sor_Pubkey request = hex_EncodeToString (PubKey_SerializeCompressed ext (sd_Privkey d))
        \<and> sor_Asset request = (if chain = l_btc_chain then liquidWallet_GetAsset ext else [])
        \<and> sor_Network request = (if chain = btc_chain then bitcoinWallet_GetNetwork ext else [])
        \<and> MarshalPeerswapMessage ext (Msg_SwapOutRequest request)
            = Inr (NextMessage d, NextMessageType d))"
proof
  let ?d0 = "NewSwapData (fresh_privkey rnd) (fresh_SwapId rnd) SWAPTYPE_OUT initiator peer"
  let ?request = "\<lparr>sor_ProtocolVersion = PEERSWAP_PROTOCOL_VERSION,
      sor_SwapId = fresh_SwapId rnd,
      sor_Asset = (if chain = l_btc_chain then liquidWallet_GetAsset ext else []),
      sor_Network = (if chain = l_btc_chain then []
                     else if chain = btc_chain then bitcoinWallet_GetNetwork ext else []),
      sor_Scid = channelId, sor_Amount = amount,
      sor_Pubkey = hex_EncodeToString (PubKey_SerializeCompressed ext (fresh_privkey rnd))\<rparr>"
  assume ok: "SwapOut ext rnd s peer chain channelId initiator amount = (s', Inr swap)"
  then have free: "\<not> hasActiveSwapOnChannel s channelId"
    by (auto simp add: SwapOut_def)
  obtain nextMessage nextMessageType
    where marshal: "MarshalPeerswapMessage ext (Msg_SwapOutRequest ?request)
                      = Inr (nextMessage, nextMessageType)"
  proof (cases "MarshalPeerswapMessage ext (Msg_SwapOutRequest ?request)")
    case (Inl e)
    with ok free show ?thesis
      by (simp add: SwapOut_def Let_def NewSwapData_def newSwapOutSenderFSM_def)
  next
    case (Inr r)
    with that show ?thesis by (cases r) simp
  qed
  let ?d = "?d0\<lparr>SwapOutRequest := Some ?request, NextMessage := nextMessage,
                  NextMessageType := nextMessageType\<rparr>"
  from free marshal
  have "sentEvents (fst (SwapOut ext rnd s peer chain channelId initiator amount))
          = sentEvents s @ [(SwapId_String (fresh_SwapId rnd), Event_OnSwapOutStarted, ?d)]"
    by (auto simp add: SwapOut_def Let_def NewSwapData_def newSwapOutSenderFSM_def
                       AddActiveSwap_sentEvents writeSwap_sentEvents RemoveActiveSwap_sentEvents
             split: prod.splits option.splits dest!: SendEvent_sentEvents)
  with ok
  have "sentEvents s' = sentEvents s @ [(SwapId_String (fresh_SwapId rnd), Event_OnSwapOutStarted, ?d)]"
    by simp
  moreover have "SwapOutRequest ?d = Some ?request" "sd_Id ?d = fresh_SwapId rnd"
    "sd_Privkey ?d = fresh_privkey rnd" "NextMessage ?d = nextMessage"
    "NextMessageType ?d = nextMessageType"
    by (simp_all add: NewSwapData_def)
  moreover have "sor_Network ?request = (if chain = btc_chain then bitcoinWallet_GetNetwork ext else [])"
    by (simp add: l_btc_chain_def btc_chain_def)
  ultimately show "\<exists>d request.
        sentEvents s' = sentEvents s @ [(SwapId_String (fresh_SwapId rnd), Event_OnSwapOutStarted, d)]
        \<and> SwapOutRequest d = Some request
        \<and> sd_Id d = fresh_SwapId rnd
        \<and> sd_Privkey d = fresh_privkey rnd
        \<and> sor_ProtocolVersion request = 2
        \<and> sor_SwapId request = fresh_SwapId rnd
        \<and> sor_Scid request = channelId
        \<and> sor_Amount request = amount
        \<and> sor_Pubkey request = hex_EncodeToString (PubKey_SerializeCompressed ext (sd_Privkey d))
        \<and> sor_Asset request = (if chain = l_btc_chain then liquidWallet_GetAsset ext else [])
        \<and> sor_Network request = (if chain = btc_chain then bitcoinWallet_GetNetwork ext else [])
        \<and> MarshalPeerswapMessage ext (Msg_SwapOutRequest request)
            = Inr (NextMessage d, NextMessageType d)"
    using marshal
    by (intro exI [of _ ?d] exI [of _ ?request]) (simp add: PEERSWAP_PROTOCOL_VERSION_def)
qed

text \<open>The spec's first scenario: a swap-out of 100000 on the chain "btc".\<close>

theorem SwapOut_request_witness:
  "\<exists>d request.
     sentEvents (fst (SwapOut example_externals example_entropy (NewSwapService True True)
                        ''P'' ''btc'' ''600000x1x0'' ''N'' 100000))
       = [(''0b'', Event_OnSwapOutStarted, d)]
     \<and> SwapOutRequest d = Some request
     \<and> sor_ProtocolVersion request = 2
     \<and> sor_SwapId request = MkSwapId ''0b''
     \<and> sor_Scid request = ''600000x1x0''
     \<and> sor_Amount request = 100000
     \<and> sor_Pubkey request = ''0201''
     \<and> sor_Asset request = []
     \<and> sor_Network request = ''mainnet''"
proof -
  let ?r = "SwapOut example_externals example_entropy (NewSwapService True True)
              ''P'' ''btc'' ''600000x1x0'' ''N'' 100000"
  have "\<not> isl (snd ?r)"
    by (simp add: SwapOut_def hasActiveSwapOnChannel_def NewSwapService_def example_externals_def
                  SendEvent_def Let_def)
  then have "?r = (fst ?r, Inr (projr (snd ?r)))"
    by (metis prod.collapse sum.collapse(2))
  from SwapOut_request [rule_format, OF this]
  obtain d request where
    "sentEvents (fst ?r) = sentEvents (NewSwapService True True)
        @ [(SwapId_String (fresh_SwapId example_entropy), Event_OnSwapOutStarted, d)]"
    "SwapOutRequest d = Some request"
    "sd_Id d = fresh_SwapId example_entropy"
    "sd_Privkey d = fresh_privkey example_entropy"
    "sor_ProtocolVersion request = 2"
    "sor_SwapId request = fresh_SwapId example_entropy"
    "sor_Scid request = ''600000x1x0''"
    "sor_Amount request = 100000"
    "sor_Pubkey request
       = hex_EncodeToString (PubKey_SerializeCompressed example_externals (sd_Privkey d))"
    "sor_Asset request
       = (if ''btc'' = l_btc_chain then liquidWallet_GetAsset example_externals else [])"
    "sor_Network request
       = (if ''btc'' = btc_chain then bitcoinWallet_GetNetwork example_externals else [])"
    by blast
  then show ?thesis
    by (intro exI [of _ d] exI [of _ request])
       (simp add: NewSwapService_def example_entropy_def example_wallets btc_chain_def
                  l_btc_chain_def hextable_def)
qed

subsection \<open>One active swap per channel\<close>

text \<open>
  The invariant is a property of the scids of the registered machines. Registering a
  machine on a channel that has no active swap keeps them distinct, as does replacing
  the machine by one on the same channel and removing a machine.
\<close>

lemma onChannel_scidOf: "onChannel c p \<longleftrightarrow> scidOf p = c"
  by (simp add: onChannel_def scidOf_def)

lemma scidOf_pair: "scidOf (k, v) = GetScid (Data v)"
  by (simp add: scidOf_def)

lemma list_ex_onChannel: "list_ex (onChannel c) xs \<longleftrightarrow> c \<in> set (map scidOf xs)"
  by (auto simp add: list_ex_iff onChannel_scidOf)

lemma scids_update_subset:
  "set (map scidOf (AList.update k v xs)) \<subseteq> insert (scidOf (k, v)) (set (map scidOf xs))"
  by (induction xs) auto

lemma admit_update:
  assumes "distinct (map scidOf xs)" and "\<not> list_ex (onChannel c) xs" and "GetScid (Data v) = c"
  shows "distinct (map scidOf (AList.update k v xs))"
proof -
  from assms(2,3) have "scidOf (k, v) \<notin> set (map scidOf xs)"
    by (simp add: list_ex_onChannel scidOf_pair)
  with assms(1) show ?thesis
  proof (induction xs)
    case Nil
    then show ?case by simp
  next
    case (Cons p xs)
    show ?case
    proof (cases "fst p = k")
      case True
      with Cons.prems show ?thesis by simp
    next
      case False
      from scids_update_subset [of k v xs] Cons.prems
      have "scidOf p \<notin> set (map scidOf (AList.update k v xs))"
        by auto
      with Cons False show ?thesis by simp
    qed
  qed
qed

lemma admit_delete:
  "distinct (map scidOf xs) \<Longrightarrow> distinct (map scidOf (AList.delete k xs))"
  by (simp add: AList.delete_eq distinct_map_filter)

lemma distinct_count:
  "distinct (map f xs) = (\<forall>c. length (filter (\<lambda>p. f p = c) xs) \<le> 1)"
proof (induction xs)
  case Nil
  then show ?case by simp
next
  case (Cons p xs)
  have fresh: "f p \<notin> set (map f xs) \<longleftrightarrow> filter (\<lambda>q. f q = f p) xs = []"
    by (force simp add: filter_empty_conv image_iff)
  show ?case
  proof
    assume "distinct (map f (p # xs))"
    with Cons.IH fresh show "\<forall>c. length (filter (\<lambda>q. f q = c) (p # xs)) \<le> 1"
      by simp
  next
    assume count: "\<forall>c. length (filter (\<lambda>q. f q = c) (p # xs)) \<le> 1"
    then have "length (filter (\<lambda>q. f q = c) xs) \<le> 1" for c
      by (metis filter.simps(2) le_SucI length_Cons not_less_eq_eq)
    moreover from count have "length (filter (\<lambda>q. f q = f p) (p # xs)) \<le> 1"
      by blast
    then have "filter (\<lambda>q. f q = f p) xs = []"
      by simp
    ultimately show "distinct (map f (p # xs))"
      using Cons.IH fresh by simp
  qed
qed

lemma oneSwapPerChannel_count:
  "oneSwapPerChannel s = (\<forall>c. swapsOnChannel s c \<le> 1)"
proof -
  have "onChannel c = (\<lambda>p. scidOf p = c)" for c
    by (rule ext) (simp add: onChannel_scidOf)
  then show ?thesis
    by (simp add: oneSwapPerChannel_def swapsOnChannel_def distinct_count [of scidOf])
qed

lemma keeps_scidD:
  "SendEvent_keeps_scid ext \<Longrightarrow> fsm_SendEvent ext event swap = (swap', fin, err)
   \<Longrightarrow> GetScid (Data swap') = GetScid (Data swap)"
  by (metis SendEvent_keeps_scid_def fst_conv)

lemma RemoveActiveSwap_keeps_invariant:
  "oneSwapPerChannel s \<Longrightarrow> oneSwapPerChannel (RemoveActiveSwap s k)"
  by (simp add: oneSwapPerChannel_def RemoveActiveSwap_def admit_delete)

lemma registered_keeps_invariant:
  assumes "oneSwapPerChannel s" and "\<not> hasActiveSwapOnChannel s c" and "GetScid (Data v) = c"
  shows "oneSwapPerChannel (writeSwap (AddActiveSwap s k w) k v)"
    and "oneSwapPerChannel (AddActiveSwap s k v)"
  using assms admit_update [of "activeSwaps s" c v k]
  by (simp_all add: oneSwapPerChannel_def hasActiveSwapOnChannel_def writeSwap_def AddActiveSwap_def)

lemma SendEvent_keeps_invariant:
  assumes keeps: "SendEvent_keeps_scid ext"
    and inv: "oneSwapPerChannel s0" and free: "\<not> hasActiveSwapOnChannel s0 c"
    and scid: "GetScid (Data swap) = c"
    and reg: "activeSwaps s = AList.update key w (activeSwaps s0)"
  shows "oneSwapPerChannel (fst (SendEvent ext s key swap event))"
proof -
  obtain swap' fin err where r: "fsm_SendEvent ext event swap = (swap', fin, err)"
    by (cases "fsm_SendEvent ext event swap")
  from keeps_scidD [OF keeps r] scid have "GetScid (Data swap') = c"
    by simp
  from admit_update [OF _ _ this, of "activeSwaps s0" key] inv free
  have "distinct (map scidOf (AList.update key swap' (activeSwaps s0)))"
    by (simp add: oneSwapPerChannel_def hasActiveSwapOnChannel_def)
  with r reg show ?thesis
    by (simp add: SendEvent_def oneSwapPerChannel_def)
qed

lemma started_keeps_invariant:
  assumes "oneSwapPerChannel (fst r)"
  shows "oneSwapPerChannel (fst (case r of (s3, swap3, fin, err) \<Rightarrow>
           (case err of
              Some e \<Rightarrow> (s3, Inl e)
            | None \<Rightarrow> (if fin then RemoveActiveSwap s3 (Id_str swap3) else s3, Inr swap3))))"
  using assms
  by (cases r) (simp add: RemoveActiveSwap_keeps_invariant split: option.splits)

lemma SwapOut_keeps_invariant:
  assumes inv: "oneSwapPerChannel s" and keeps: "SendEvent_keeps_scid ext"
  shows "oneSwapPerChannel (fst (SwapOut ext rnd s peer chain channelId initiator amount))"
proof (cases "hasActiveSwapOnChannel s channelId")
  case True
  with inv show ?thesis by (simp add: SwapOut_def)
next
  case False
  note sent = SendEvent_keeps_invariant [OF keeps inv False]
  note reg = registered_keeps_invariant [OF inv False]
  show ?thesis
    unfolding SwapOut_def Let_def
    apply (simp only: False if_False)
    apply (split sum.split, intro conjI allI impI)
     apply (simp only: fst_conv)
     apply (rule reg(1))
     apply (simp add: GetScid_def NewSwapData_def)
    apply (simp only: split_paired_all case_prod_conv)
    apply (rule started_keeps_invariant)
    apply (rule sent)
     apply (simp add: GetScid_def NewSwapData_def)
    apply (simp add: writeSwap_def AddActiveSwap_def)
    done
qed

lemma SwapIn_keeps_invariant:
  assumes inv: "oneSwapPerChannel s" and keeps: "SendEvent_keeps_scid ext"
  shows "oneSwapPerChannel (fst (SwapIn ext rnd s peer chain channelId initiator amount))"
proof (cases "hasActiveSwapOnChannel s channelId")
  case True
  with inv show ?thesis by (simp add: SwapIn_def)
next
  case False
  note sent = SendEvent_keeps_invariant [OF keeps inv False]
  note reg = registered_keeps_invariant [OF inv False]
  show ?thesis
    unfolding SwapIn_def Let_def
    apply (simp only: False if_False)
    apply (split sum.split, intro conjI allI impI)
     apply (simp only: fst_conv)
     apply (rule reg(1))
     apply (simp add: GetScid_def NewSwapData_def)
    apply (simp only: split_paired_all case_prod_conv)
    apply (rule started_keeps_invariant)
    apply (rule sent)
     apply (simp add: GetScid_def NewSwapData_def)
    apply (simp add: writeSwap_def AddActiveSwap_def)
    done
qed

lemma sentMessages_keeps_invariant:
  "oneSwapPerChannel (s\<lparr>sentMessages := ms\<rparr>) = oneSwapPerChannel s"
  by (simp add: oneSwapPerChannel_def)

lemma refused_request_keeps_invariant:
  assumes "oneSwapPerChannel s"
  shows "oneSwapPerChannel (fst (case r of
           Inl err1 \<Rightarrow> (s, Some err1)
         | Inr (msgBytes, msgType) \<Rightarrow>
             (s\<lparr>sentMessages := sentMessages s @ [(peerId, msgBytes, msgType)]\<rparr>,
              send peerId msgBytes msgType)))"
  using assms
  by (cases r) (auto simp add: sentMessages_keeps_invariant)

lemma received_in_keeps_invariant:
  assumes "oneSwapPerChannel (fst r)"
  shows "oneSwapPerChannel (fst (case r of (s3, swap2, fin, err) \<Rightarrow>
           (if fin then RemoveActiveSwap s3 (Id_str swap2) else s3, err)))"
  using assms
  by (cases r) (simp add: RemoveActiveSwap_keeps_invariant)

lemma received_out_keeps_invariant:
  assumes "oneSwapPerChannel (fst r)"
  shows "oneSwapPerChannel (fst (case r of (s2, swap2, fin, err) \<Rightarrow>
           (case err of
              Some e \<Rightarrow> (s2, Some e)
            | None \<Rightarrow> (if fin then RemoveActiveSwap s2 (Id_str swap2) else s2, None))))"
  using assms
  by (cases r) (simp add: RemoveActiveSwap_keeps_invariant split: option.splits)

lemma OnSwapInRequestReceived_keeps_invariant:
  assumes inv: "oneSwapPerChannel s" and keeps: "SendEvent_keeps_scid ext"
  shows "oneSwapPerChannel (fst (OnSwapInRequestReceived ext key s swapId peerId message))"
proof (cases "hasActiveSwapOnChannel s (sir_Scid message)")
  case True
  with inv show ?thesis by (simp add: OnSwapInRequestReceived_def)
next
  case False
  note sent = SendEvent_keeps_invariant [OF keeps inv False]
  show ?thesis
    unfolding OnSwapInRequestReceived_def Let_def
    apply (simp only: False if_False)
    apply (split option.split, intro conjI allI impI)
     apply (rule received_in_keeps_invariant)
     apply (rule sent)
      apply (simp add: GetScid_def NewSwapDataFromRequest_def WithSwapInMessage_def)
     apply (simp add: writeSwap_def AddActiveSwap_def)
    apply (rule refused_request_keeps_invariant [OF inv])
    done
qed

lemma OnSwapOutRequestReceived_keeps_invariant:
  assumes inv: "oneSwapPerChannel s" and keeps: "SendEvent_keeps_scid ext"
  shows "oneSwapPerChannel (fst (OnSwapOutRequestReceived ext key s swapId peerId message))"
proof (cases "hasActiveSwapOnChannel s (sor_Scid message)")
  case True
  with inv show ?thesis by (simp add: OnSwapOutRequestReceived_def)
next
  case False
  note sent = SendEvent_keeps_invariant [OF keeps inv False]
  show ?thesis
    unfolding OnSwapOutRequestReceived_def Let_def
    apply (simp only: False if_False)
    apply (split option.split, intro conjI allI impI)
     apply (rule received_out_keeps_invariant)
     apply (rule sent)
      apply (simp add: GetScid_def NewSwapDataFromRequest_def WithSwapOutMessage_def)
     apply (simp add: AddActiveSwap_def)
    apply (rule refused_request_keeps_invariant [OF inv])
    done
qed

text \<open>
  Claim C3, as stated, fails in its last clause: \<open>RecoverSwaps\<close> adds to \<open>activeSwaps\<close>
  too, and it registers every unfinished stored swap without asking
  \<open>hasActiveSwapOnChannel\<close>. From a store with two unfinished swaps on one channel it
  takes a new service, which has the invariant, to one with two active swaps on that
  channel.
\<close>

theorem RecoverSwaps_counterexample:
  "oneSwapPerChannel (NewSwapService True True)
   \<and> snd (RecoverSwaps stored_externals (NewSwapService True True)) = None
   \<and> swapsOnChannel (fst (RecoverSwaps stored_externals (NewSwapService True True))) ''600000x1x0'' = 2
   \<and> \<not> oneSwapPerChannel (fst (RecoverSwaps stored_externals (NewSwapService True True)))"
  by (simp add: RecoverSwaps_def stored_externals_def example_externals_def NewSwapService_def
                example_swap_def newSwapOutSenderFSM_def AddActiveSwap_def writeSwap_def
                oneSwapPerChannel_def swapsOnChannel_def onChannel_def scidOf_def GetScid_def
                NewSwapData_def Let_def)

text \<open>
  Claim C3, amended. Each of \<open>SwapOut\<close>, \<open>SwapIn\<close>, \<open>OnSwapOutRequestReceived\<close> and
  \<open>OnSwapInRequestReceived\<close> first checks \<open>hasActiveSwapOnChannel\<close> for the requested
  scid and, when a swap is already active on that channel, fails with the error
  "already has an active swap on channel" and leaves the service as it was, with no
  new machine. So each of the four keeps the invariant that for every channel at most
  one swap in \<open>activeSwaps\<close> has its scid, as long as the state machine does not change
  the scid of a swap's request while it handles an event.
\<close>

theorem admission_keeps_oneSwapPerChannel:
  "(hasActiveSwapOnChannel s channelId \<longrightarrow>
      SwapOut ext rnd s peer chain channelId initiator amount
        = (s, Inl (ErrorString ''already has an active swap on channel''))
      \<and> SwapIn ext rnd s peer chain channelId initiator amount
        = (s, Inl (ErrorString ''already has an active swap on channel'')))
   \<and> (hasActiveSwapOnChannel s (sor_Scid sor) \<longrightarrow>
      OnSwapOutRequestReceived ext key s swapId peerId sor
        = (s, Some (ErrorString ''already has an active swap on channel'')))
   \<and> (hasActiveSwapOnChannel s (sir_Scid sir) \<longrightarrow>
      OnSwapInRequestReceived ext key s swapId peerId sir
        = (s, Some (ErrorString ''already has an active swap on channel'')))
   \<and> (oneSwapPerChannel s \<and> SendEvent_keeps_scid ext \<longrightarrow>
      oneSwapPerChannel (fst (SwapOut ext rnd s peer chain channelId initiator amount))
      \<and> oneSwapPerChannel (fst (SwapIn ext rnd s peer chain channelId initiator amount))
      \<and> oneSwapPerChannel (fst (OnSwapOutRequestReceived ext key s swapId peerId sor))
      \<and> oneSwapPerChannel (fst (OnSwapInRequestReceived ext key s swapId peerId sir)))
   \<and> oneSwapPerChannel s = (\<forall>c. swapsOnChannel s c \<le> 1)
   \<and> hasActiveSwapOnChannel s channelId = (0 < swapsOnChannel s channelId)"
proof -
  have "hasActiveSwapOnChannel s channelId = (0 < swapsOnChannel s channelId)"
    by (simp add: hasActiveSwapOnChannel_def swapsOnChannel_def list_ex_iff filter_empty_conv)
  then show ?thesis
    using SwapOut_keeps_invariant [of s ext rnd peer chain channelId initiator amount]
          SwapIn_keeps_invariant [of s ext rnd peer chain channelId initiator amount]
          OnSwapOutRequestReceived_keeps_invariant [of s ext key swapId peerId sor]
          OnSwapInRequestReceived_keeps_invariant [of s ext key swapId peerId sir]
          oneSwapPerChannel_count [of s]
    by (simp add: SwapOut_def SwapIn_def OnSwapOutRequestReceived_def OnSwapInRequestReceived_def)
qed

lemma example_keeps_scid: "SendEvent_keeps_scid example_externals"
  by (simp add: SendEvent_keeps_scid_def example_externals_def)

lemma example_service_one: "oneSwapPerChannel example_service"
  by (simp add: oneSwapPerChannel_def example_service_def AddActiveSwap_def NewSwapService_def)

lemma example_service_busy: "hasActiveSwapOnChannel example_service ''600000x1x0''"
  by (simp add: hasActiveSwapOnChannel_def example_service_def AddActiveSwap_def NewSwapService_def
                onChannel_def example_swap_def GetScid_def NewSwapData_def)

text \<open>
  The service with the swap \<open>0a\<close> on channel 600000x1x0: a second swap on that channel
  is refused by each of the four operations, one on another channel keeps the
  invariant.
\<close>

theorem admission_keeps_oneSwapPerChannel_witness:
  "SwapOut example_externals example_entropy example_service ''A'' ''btc'' ''600000x1x0'' ''N'' 100000
     = (example_service, Inl (ErrorString ''already has an active swap on channel''))
   \<and> SwapIn example_externals example_entropy example_service ''A'' ''btc'' ''600000x1x0'' ''N'' 100000
     = (example_service, Inl (ErrorString ''already has an active swap on channel''))
   \<and> OnSwapOutRequestReceived example_externals [1] example_service (MkSwapId ''0c'') ''A''
        \<lparr>sor_ProtocolVersion = 2, sor_SwapId = MkSwapId ''0c'', sor_Asset = [],
         sor_Network = ''mainnet'', sor_Scid = ''600000x1x0'', sor_Amount = 100000, sor_Pubkey = []\<rparr>
     = (example_service, Some (ErrorString ''already has an active swap on channel''))
   \<and> OnSwapInRequestReceived example_externals [1] example_service (MkSwapId ''0c'') ''A''
        \<lparr>sir_ProtocolVersion = 2, sir_SwapId = MkSwapId ''0c'', sir_Asset = [],
         sir_Network = ''mainnet'', sir_Scid = ''600000x1x0'', sir_Amount = 100000, sir_Pubkey = []\<rparr>
     = (example_service, Some (ErrorString ''already has an active swap on channel''))
   \<and> oneSwapPerChannel (fst (SwapOut example_externals example_entropy example_service
                                ''A'' ''btc'' ''700000x2x1'' ''N'' 100000))
   \<and> oneSwapPerChannel (fst (SwapIn example_externals example_entropy example_service
                                ''A'' ''btc'' ''700000x2x1'' ''N'' 100000))
   \<and> oneSwapPerChannel (fst (OnSwapOutRequestReceived example_externals [1] example_service
        (MkSwapId ''0c'') ''A''
        \<lparr>sor_ProtocolVersion = 2, sor_SwapId = MkSwapId ''0c'', sor_Asset = [],
         sor_Network = ''mainnet'', sor_Scid = ''700000x2x1'', sor_Amount = 100000, sor_Pubkey = []\<rparr>))
   \<and> oneSwapPerChannel (fst (OnSwapInRequestReceived example_externals [1] example_service
        (MkSwapId ''0c'') ''A''
        \<lparr>sir_ProtocolVersion = 2, sir_SwapId = MkSwapId ''0c'', sir_Asset = [],
         sir_Network = ''mainnet'', sir_Scid = ''700000x2x1'', sir_Amount = 100000, sir_Pubkey = []\<rparr>))"
proof -
  note T = admission_keeps_oneSwapPerChannel [where s = example_service and ext = example_externals
      and rnd = example_entropy and peer = "''A''" and chain = "''btc''" and initiator = "''N''"
      and amount = 100000 and key = "[1]" and swapId = "MkSwapId ''0c''" and peerId = "''A''"]
  from T [where channelId = "''600000x1x0''"
      and sor = "\<lparr>sor_ProtocolVersion = 2, sor_SwapId = MkSwapId ''0c'', sor_Asset = [],
         sor_Network = ''mainnet'', sor_Scid = ''600000x1x0'', sor_Amount = 100000, sor_Pubkey = []\<rparr>"
      and sir = "\<lparr>sir_ProtocolVersion = 2, sir_SwapId = MkSwapId ''0c'', sir_Asset = [],
         sir_Network = ''mainnet'', sir_Scid = ''600000x1x0'', sir_Amount = 100000, sir_Pubkey = []\<rparr>"]
    example_service_busy
  have busy: "SwapOut example_externals example_entropy example_service ''A'' ''btc'' ''600000x1x0'' ''N'' 100000
     = (example_service, Inl (ErrorString ''already has an active swap on channel''))
   \<and> SwapIn example_externals example_entropy example_service ''A'' ''btc'' ''600000x1x0'' ''N'' 100000
     = (example_service, Inl (ErrorString ''already has an active swap on channel''))
   \<and> OnSwapOutRequestReceived example_externals [1] example_service (MkSwapId ''0c'') ''A''
        \<lparr>sor_ProtocolVersion = 2, sor_SwapId = MkSwapId ''0c'', sor_Asset = [],
         sor_Network = ''mainnet'', sor_Scid = ''600000x1x0'', sor_Amount = 100000, sor_Pubkey = []\<rparr>
     = (example_service, Some (ErrorString ''already has an active swap on channel''))
   \<and> OnSwapInRequestReceived example_externals [1] example_service (MkSwapId ''0c'') ''A''
        \<lparr>sir_ProtocolVersion = 2, sir_SwapId = MkSwapId ''0c'', sir_Asset = [],
         sir_Network = ''mainnet'', sir_Scid = ''600000x1x0'', sir_Amount = 100000, sir_Pubkey = []\<rparr>
     = (example_service, Some (ErrorString ''already has an active swap on channel''))"
    by simp
  from T [where channelId = "''700000x2x1''"
      and sor = "\<lparr>sor_ProtocolVersion = 2, sor_SwapId = MkSwapId ''0c'', sor_Asset = [],
         sor_Network = ''mainnet'', sor_Scid = ''700000x2x1'', sor_Amount = 100000, sor_Pubkey = []\<rparr>"
      and sir = "\<lparr>sir_ProtocolVersion = 2, sir_SwapId = MkSwapId ''0c'', sir_Asset = [],
         sir_Network = ''mainnet'', sir_Scid = ''700000x2x1'', sir_Amount = 100000, sir_Pubkey = []\<rparr>"]
    example_service_one example_keeps_scid
  have "oneSwapPerChannel (fst (SwapOut example_externals example_entropy example_service
                                ''A'' ''btc'' ''700000x2x1'' ''N'' 100000))
   \<and> oneSwapPerChannel (fst (SwapIn example_externals example_entropy example_service
                                ''A'' ''btc'' ''700000x2x1'' ''N'' 100000))
   \<and> oneSwapPerChannel (fst (OnSwapOutRequestReceived example_externals [1] example_service
        (MkSwapId ''0c'') ''A''
        \<lparr>sor_ProtocolVersion = 2, sor_SwapId = MkSwapId ''0c'', sor_Asset = [],
         sor_Network = ''mainnet'', sor_Scid = ''700000x2x1'', sor_Amount = 100000, sor_Pubkey = []\<rparr>))
   \<and> oneSwapPerChannel (fst (OnSwapInRequestReceived example_externals [1] example_service
        (MkSwapId ''0c'') ''A''
        \<lparr>sir_ProtocolVersion = 2, sir_SwapId = MkSwapId ''0c'', sir_Asset = [],
         sir_Network = ''mainnet'', sir_Scid = ''700000x2x1'', sir_Amount = 100000, sir_Pubkey = []\<rparr>))"
    by blast
  with busy show ?thesis by blast
qed

subsection \<open>The type recorded for a received swap-in request\<close>

text \<open>
  Claim C2 says that the \<^verbatim>\<open>SwapData\<close> of a swap created by \<open>OnSwapInRequestReceived\<close>
  has the type \<open>SWAPTYPE_IN\<close>. The code passes \<open>SWAPTYPE_OUT\<close> to
  \<^verbatim>\<open>NewSwapDataFromRequest\<close>: for a request that passes validation on a channel
  without active swap, the one event delivered is \<open>Event_SwapInReceiver_OnRequestReceived\<close>
  and the \<^verbatim>\<open>SwapData\<close> of the new machine holds the request, the role of the receiver
  and the type \<open>SWAPTYPE_OUT\<close>.
\<close>

theorem OnSwapInRequestReceived_type:
  "\<not> hasActiveSwapOnChannel s (sir_Scid message) \<and> Validate_SwapInRequest ext message = None \<longrightarrow>
     (\<exists>d. sentEvents (fst (OnSwapInRequestReceived ext key s swapId peerId message))
            = sentEvents s @ [(SwapId_String swapId, Event_SwapInReceiver_OnRequestReceived, d)]
          \<and> SwapInRequest d = Some message
          \<and> PeerNodeId d = peerId
          \<and> sd_Role d = SWAPROLE_RECEIVER
          \<and> sd_Type d = SWAPTYPE_OUT)"
proof
  let ?d = "WithSwapInMessage (NewSwapDataFromRequest key swapId peerId SWAPTYPE_OUT) message"
  assume "\<not> hasActiveSwapOnChannel s (sir_Scid message) \<and> Validate_SwapInRequest ext message = None"
  then have "sentEvents (fst (OnSwapInRequestReceived ext key s swapId peerId message))
       = sentEvents s @ [(SwapId_String swapId, Event_SwapInReceiver_OnRequestReceived, ?d)]"
    by (simp add: OnSwapInRequestReceived_def Let_def case_prod_beta SendEvent_def
                  RemoveActiveSwap_sentEvents AddActiveSwap_sentEvents writeSwap_sentEvents
                  newSwapInReceiverFSM_def)
  moreover have "SwapInRequest ?d = Some message" "PeerNodeId ?d = peerId"
    "sd_Role ?d = SWAPROLE_RECEIVER" "sd_Type ?d = SWAPTYPE_OUT"
    by (simp_all add: WithSwapInMessage_def NewSwapDataFromRequest_def)
  ultimately show "\<exists>d. sentEvents (fst (OnSwapInRequestReceived ext key s swapId peerId message))
            = sentEvents s @ [(SwapId_String swapId, Event_SwapInReceiver_OnRequestReceived, d)]
          \<and> SwapInRequest d = Some message
          \<and> PeerNodeId d = peerId
          \<and> sd_Role d = SWAPROLE_RECEIVER
          \<and> sd_Type d = SWAPTYPE_OUT"
    by blast
qed

text \<open>A swap-in request for the swap \<open>0c\<close>, received by a new service.\<close>

theorem OnSwapInRequestReceived_type_witness:
  "\<exists>d. sentEvents (fst (OnSwapInRequestReceived example_externals [1] (NewSwapService True True)
                           (MkSwapId ''0c'') ''A''
                           \<lparr>sir_ProtocolVersion = 2, sir_SwapId = MkSwapId ''0c'', sir_Asset = [],
                            sir_Network = ''mainnet'', sir_Scid = ''600000x1x0'',
                            sir_Amount = 100000, sir_Pubkey = []\<rparr>))
         = [(''0c'', Event_SwapInReceiver_OnRequestReceived, d)]
       \<and> sd_Role d = SWAPROLE_RECEIVER
       \<and> sd_Type d = SWAPTYPE_OUT"
proof -
  have "\<not> hasActiveSwapOnChannel (NewSwapService True True) ''600000x1x0''"
    by (simp add: hasActiveSwapOnChannel_def NewSwapService_def)
  moreover have "Validate_SwapInRequest example_externals m = None" for m
    by (simp add: example_externals_def)
  moreover have "sentEvents (NewSwapService True True) = []"
    by (simp add: NewSwapService_def)
  ultimately show ?thesis
    using OnSwapInRequestReceived_type [where s = "NewSwapService True True"
        and ext = example_externals and key = "[1]" and swapId = "MkSwapId ''0c''"
        and peerId = "''A''"
        and message = "\<lparr>sir_ProtocolVersion = 2, sir_SwapId = MkSwapId ''0c'', sir_Asset = [],
                        sir_Network = ''mainnet'', sir_Scid = ''600000x1x0'',
                        sir_Amount = 100000, sir_Pubkey = []\<rparr>"]
    by auto
qed

end
